theory Spec2Isabelle
  imports Complex_Main
begin

section \<open>Conventions\<close>

text \<open>
  The development embeds the retrieval-augmented answering workflow of the repository:
  \<^verbatim>\<open>vector-store.ts\<close>, \<^verbatim>\<open>answer-generation.ts\<close>, \<^verbatim>\<open>self-evaluation.ts\<close>,
  \<^verbatim>\<open>query-refinement.ts\<close>, \<^verbatim>\<open>document-processing.ts\<close> and \<^verbatim>\<open>rag-workflow.ts\<close>.

  \<^item> A JavaScript \<^verbatim>\<open>number\<close> that holds a score is a \<^typ>\<open>real\<close>: the arithmetic is the
    exact one, rounding of IEEE doubles is not part of the model. Counters and lengths are
    \<^typ>\<open>nat\<close>.
  \<^item> A thrown \<^verbatim>\<open>Error\<close> is a value \<open>Error msg\<close>; a function that may throw returns
    \<open>error + 'a\<close> with \<open>Inl\<close> for the throw.
  \<^item> External services (embedding model, language models, clock) are parameters.
  \<^item> The record store is a list of rows in the order the store returns them.
\<close>

datatype error = Error string

fun message :: "error \<Rightarrow> string" where
  "message (Error m) = m"

section \<open>vector-store.ts\<close>

subsection \<open>cosineSimilarity\<close>

text \<open>
  The \<^verbatim>\<open>for\<close> loop of \<^verbatim>\<open>cosineSimilarity\<close> over the common index range, with the three
  accumulators \<^verbatim>\<open>dotProduct\<close>, \<^verbatim>\<open>normA\<close>, \<^verbatim>\<open>normB\<close>.
\<close>

fun accumulate :: "real list \<Rightarrow> real list \<Rightarrow> real \<times> real \<times> real \<Rightarrow> real \<times> real \<times> real" where
  "accumulate (a # as) (b # bs) (dotProduct, normA, normB) =
     accumulate as bs (dotProduct + a * b, normA + a * a, normB + b * b)"
| "accumulate _ _ acc = acc"

definition cosineSimilarity :: "real list \<Rightarrow> real list \<Rightarrow> error + real" where
  "cosineSimilarity vecA vecB =
     (if length vecA \<noteq> length vecB then Inl (Error ''Vectors must have same length'')
      else
        (case accumulate vecA vecB (0, 0, 0) of
           (dotProduct, sqA, sqB) \<Rightarrow>
             let normA = sqrt sqA; normB = sqrt sqB
             in if normA = 0 \<or> normB = 0 then Inr 0
                else Inr (dotProduct / (normA * normB))))"

text \<open>The Euclidean norm of a vector, the value of \<^verbatim>\<open>normA\<close> after \<^verbatim>\<open>Math.sqrt\<close>.\<close>

definition vecNorm :: "real list \<Rightarrow> real" where
  "vecNorm v = sqrt (\<Sum>x\<leftarrow>v. x * x)"

subsection \<open>retrieveDocuments\<close>

datatype role = Teacher | Student

text \<open>The columns of a document row that \<^verbatim>\<open>retrieveDocuments\<close> filters on or selects.\<close>

record Document =
  doc_id :: string
  doc_title :: string
  doc_subject :: "string option"
  doc_gradeLevel :: "nat option"
  doc_fileUrl :: "string option"
  doc_isPublic :: bool

text \<open>
  The \<^verbatim>\<open>embedding\<close> column is a JSON string or null: \<open>NoEmbedding\<close> is a null or empty
  column (skipped by \<^verbatim>\<open>if (!chunk.embedding) return null\<close>), \<open>Unparsable\<close> a string on which
  \<^verbatim>\<open>JSON.parse\<close> throws, \<open>Vec v\<close> a string that parses to the vector \<open>v\<close>.
\<close>

datatype storedEmbedding = NoEmbedding | Unparsable | Vec "real list"

text \<open>The metadata object the chunker attaches to a chunk and the store keeps as JSON.\<close>

record ChunkMetadata =
  meta_documentTitle :: string
  meta_chunkIndex :: nat
  meta_sentenceStart :: nat
  meta_sentenceEnd :: nat

record StoredChunk =
  stored_id :: string
  stored_content :: string
  stored_embedding :: storedEmbedding
  stored_chunkIndex :: nat
  stored_metadata :: "ChunkMetadata option"
  stored_document :: Document

text \<open>
  The \<^verbatim>\<open>metadata\<close> object of a retrieved document. The spread \<^verbatim>\<open>...chunk.metadata\<close> comes
  last in the object literal, so the chunk's own \<^verbatim>\<open>documentTitle\<close> and \<^verbatim>\<open>chunkIndex\<close>
  override the ones taken from the document row and the chunk column.
\<close>

record RetrievedMetadata =
  documentId :: string
  documentTitle :: string
  md_subject :: "string option"
  md_gradeLevel :: "nat option"
  md_fileUrl :: "string option"
  md_chunkIndex :: nat
  md_sentenceSpan :: "(nat \<times> nat) option"

record RetrievedDocument =
  rid :: string
  content :: string
  score :: real
  metadata :: RetrievedMetadata

record RetrieveOptions =
  opt_subject :: "string option"
  opt_gradeLevel :: "nat option"
  opt_userRole :: role
  opt_topK :: "nat option"

text \<open>
  The \<^verbatim>\<open>where\<close> clause: \<^verbatim>\<open>if (subject)\<close> and \<^verbatim>\<open>if (gradeLevel)\<close> test truthiness, so an
  empty subject and grade level 0 add no filter; students only see public documents.
\<close>

definition whereClause :: "RetrieveOptions \<Rightarrow> StoredChunk \<Rightarrow> bool" where
  "whereClause opts c =
     ((case opt_subject opts of
         None \<Rightarrow> True
       | Some s \<Rightarrow> s = [] \<or> doc_subject (stored_document c) = Some s)
      \<and> (case opt_gradeLevel opts of
         None \<Rightarrow> True
       | Some g \<Rightarrow> g = 0 \<or> doc_gradeLevel (stored_document c) = Some g)
      \<and> (opt_userRole opts = Student \<longrightarrow> doc_isPublic (stored_document c)))"

text \<open>\<^verbatim>\<open>prisma.aIDocumentChunk.findMany({ where, include, take: 100 })\<close> on the chunk table.\<close>

definition findManyChunks :: "StoredChunk list \<Rightarrow> RetrieveOptions \<Rightarrow> StoredChunk list" where
  "findManyChunks store opts = take 100 (filter (whereClause opts) store)"

definition scoredChunk :: "StoredChunk \<Rightarrow> real \<Rightarrow> RetrievedDocument" where
  "scoredChunk c sc =
     \<lparr> rid = stored_id c,
       content = stored_content c,
       score = sc,
       metadata =
         \<lparr> documentId = doc_id (stored_document c),
           documentTitle =
             (case stored_metadata c of
                None \<Rightarrow> doc_title (stored_document c)
              | Some m \<Rightarrow> meta_documentTitle m),
           md_subject = doc_subject (stored_document c),
           md_gradeLevel = doc_gradeLevel (stored_document c),
           md_fileUrl = doc_fileUrl (stored_document c),
           md_chunkIndex =
             (case stored_metadata c of
                None \<Rightarrow> stored_chunkIndex c
              | Some m \<Rightarrow> meta_chunkIndex m),
           md_sentenceSpan =
             (case stored_metadata c of
                None \<Rightarrow> None
              | Some m \<Rightarrow> Some (meta_sentenceStart m, meta_sentenceEnd m)) \<rparr> \<rparr>"

text \<open>
  The \<^verbatim>\<open>.map(...)\<close> over the fetched chunks followed by the filter that drops the nulls:
  chunks are scored in order, and the first throw (of \<^verbatim>\<open>JSON.parse\<close> or of
  \<^verbatim>\<open>cosineSimilarity\<close>) leaves the function.
\<close>

fun scoreChunks :: "real list \<Rightarrow> StoredChunk list \<Rightarrow> error + RetrievedDocument list" where
  "scoreChunks queryEmbedding [] = Inr []"
| "scoreChunks queryEmbedding (c # cs) =
     (case stored_embedding c of
        NoEmbedding \<Rightarrow> scoreChunks queryEmbedding cs
      | Unparsable \<Rightarrow> Inl (Error ''Unexpected token in JSON'')
      | Vec chunkEmbedding \<Rightarrow>
          (case cosineSimilarity queryEmbedding chunkEmbedding of
             Inl e \<Rightarrow> Inl e
           | Inr sc \<Rightarrow>
               (case scoreChunks queryEmbedding cs of
                  Inl e \<Rightarrow> Inl e
                | Inr ds \<Rightarrow> Inr (scoredChunk c sc # ds))))"

text \<open>
  \<^verbatim>\<open>.sort((a, b) => b.score - a.score)\<close>: a stable sort by descending score.
\<close>

definition sortByScoreDesc :: "RetrievedDocument list \<Rightarrow> RetrievedDocument list" where
  "sortByScoreDesc ds = sort_key (\<lambda>d. - score d) ds"

text \<open>
  \<^verbatim>\<open>retrieveDocuments\<close>, with the embedding service \<open>generateEmbedding\<close> and the chunk
  table \<open>store\<close> as parameters. \<^verbatim>\<open>topK\<close> defaults to 5. Every error is rethrown.
\<close>

definition retrieveDocuments ::
  "(string \<Rightarrow> error + real list) \<Rightarrow> StoredChunk list \<Rightarrow> string \<Rightarrow> RetrieveOptions
     \<Rightarrow> error + RetrievedDocument list" where
  "retrieveDocuments generateEmbedding store query opts =
     (let topK = (case opt_topK opts of None \<Rightarrow> 5 | Some k \<Rightarrow> k)
      in case generateEmbedding query of
           Inl e \<Rightarrow> Inl e
         | Inr queryEmbedding \<Rightarrow>
             (case scoreChunks queryEmbedding (findManyChunks store opts) of
                Inl e \<Rightarrow> Inl e
              | Inr scoredChunks \<Rightarrow> Inr (take topK (sortByScoreDesc scoredChunks))))"

text \<open>
  A concrete store for the retrieval: one hundred chunks orthogonal to the query embedding,
  followed by one chunk that equals it.
\<close>

definition exampleDocument :: Document where
  "exampleDocument =
     \<lparr> doc_id = ''doc-1'', doc_title = ''Algebra notes'', doc_subject = Some ''math'',
       doc_gradeLevel = Some 9, doc_fileUrl = None, doc_isPublic = True \<rparr>"


definition bestChunk :: StoredChunk where
  "bestChunk =
     \<lparr> stored_id = ''best'', stored_content = ''the relevant passage'',
       stored_embedding = Vec [1, 0], stored_chunkIndex = 100, stored_metadata = None,
       stored_document = exampleDocument \<rparr>"


definition exampleOptions :: RetrieveOptions where
  "exampleOptions =
     \<lparr> opt_subject = None, opt_gradeLevel = None, opt_userRole = Teacher, opt_topK = None \<rparr>"

definition exampleEmbedding :: "string \<Rightarrow> error + real list" where
  "exampleEmbedding q = Inr [1, 0]"

section \<open>String primitives of the runtime\<close>

text \<open>
  Strings are lists of characters and \<open>length\<close> counts characters, as \<^verbatim>\<open>.length\<close> does on
  ASCII text. \<open>isSpace\<close> is the class \<^verbatim>\<open>\s\<close> restricted to ASCII: space, tab, line feed,
  vertical tab, form feed, carriage return.
\<close>

definition isSpace :: "char \<Rightarrow> bool" where
  "isSpace c = (c = CHR '' '' \<or> c = CHR 0x09 \<or> c = CHR 0x0A \<or> c = CHR 0x0B
                 \<or> c = CHR 0x0C \<or> c = CHR 0x0D)"

text \<open>\<^verbatim>\<open>String.prototype.trim\<close>.\<close>

definition trim :: "string \<Rightarrow> string" where
  "trim s = rev (dropWhile isSpace (rev (dropWhile isSpace s)))"

text \<open>\<^verbatim>\<open>String.prototype.toLowerCase\<close> on ASCII letters.\<close>

definition toLowerChar :: "char \<Rightarrow> char" where
  "toLowerChar c =
     (case map_of (zip ''ABCDEFGHIJKLMNOPQRSTUVWXYZ'' ''abcdefghijklmnopqrstuvwxyz'') c of
        None \<Rightarrow> c
      | Some l \<Rightarrow> l)"

definition toLowerCase :: "string \<Rightarrow> string" where
  "toLowerCase s = map toLowerChar s"

text \<open>
  \<^verbatim>\<open>s.split(/\s+/)\<close>: the pieces between maximal runs of whitespace. A leading or trailing
  run contributes an empty piece, and the empty string splits into one empty piece.
  \<open>cur\<close> is the piece being read (reversed), \<open>inSep\<close> tells that the previous character
  was whitespace.
\<close>

fun splitWsAux :: "string \<Rightarrow> string \<Rightarrow> bool \<Rightarrow> string list" where
  "splitWsAux [] cur inSep = [rev cur]"
| "splitWsAux (c # cs) cur inSep =
     (if isSpace c
      then (if inSep then splitWsAux cs cur True else rev cur # splitWsAux cs [] True)
      else splitWsAux cs (c # cur) False)"

definition splitWs :: "string \<Rightarrow> string list" where
  "splitWs s = splitWsAux s [] False"

text \<open>\<^verbatim>\<open>haystack.includes(needle)\<close>.\<close>

fun includesStr :: "string \<Rightarrow> string \<Rightarrow> bool" where
  "includesStr [] needle = (needle = [])"
| "includesStr (h # hs) needle = (take (length needle) (h # hs) = needle \<or> includesStr hs needle)"

text \<open>
  \<^verbatim>\<open>xs.filter((x, idx, self) => self.indexOf(x) === idx)\<close>: the first occurrence of every
  element, in order.
\<close>

definition uniqueFirst :: "'a list \<Rightarrow> 'a list" where
  "uniqueFirst xs = foldl (\<lambda>acc x. if x \<in> set acc then acc else acc @ [x]) [] xs"

section \<open>answer-generation.ts\<close>

datatype BaseMessage = HumanMessage string | AIMessage string | SystemMessage string

record GenerationResult =
  gen_answer :: string
  gen_confidence :: real
  gen_sources :: "string list"
  gen_tokenUsage :: nat
  gen_documentsUsed :: nat
  gen_avgRelevance :: real

text \<open>\<^verbatim>\<open>Math.ceil(text.length / 4)\<close>.\<close>

definition estimateTokens :: "string \<Rightarrow> nat" where
  "estimateTokens text = (length text + 3) div 4"

text \<open>
  \<^verbatim>\<open>docs.reduce((sum, doc) => sum + doc.score, 0) / (docs.length || 1)\<close>, the average used
  by \<^verbatim>\<open>generateAnswer\<close> and by the model-based evaluation.
\<close>

definition avgRelevanceOr1 :: "RetrievedDocument list \<Rightarrow> real" where
  "avgRelevanceOr1 docs =
     (\<Sum>d\<leftarrow>docs. score d) / (if docs = [] then 1 else real (length docs))"

definition extractSources :: "RetrievedDocument list \<Rightarrow> string list" where
  "extractSources docs =
     take 5 (uniqueFirst
       (map (\<lambda>d. if documentTitle (metadata d) = [] then ''Unknown'' else documentTitle (metadata d))
          (filter (\<lambda>d. score d > 0.5) docs)))"

text \<open>
  \<^verbatim>\<open>generateAnswer\<close>. The language model is the parameter \<open>llm\<close>; it receives what the
  prompt is built from (query, documents, mode, the last six messages) and returns the
  completion or fails. A failure is rethrown with the prefix of the \<^verbatim>\<open>catch\<close> block.
\<close>

definition generateAnswer ::
  "(string \<Rightarrow> RetrievedDocument list \<Rightarrow> string \<Rightarrow> BaseMessage list \<Rightarrow> error + string)
     \<Rightarrow> string \<Rightarrow> RetrievedDocument list \<Rightarrow> string \<Rightarrow> BaseMessage list
     \<Rightarrow> error + GenerationResult" where
  "generateAnswer llm query retrievedDocuments mode conversationHistory =
     (let recentMessages = drop (length conversationHistory - 6) conversationHistory
      in case llm query retrievedDocuments mode recentMessages of
           Inl e \<Rightarrow> Inl (Error (''Answer generation failed: '' @ message e))
         | Inr answer \<Rightarrow>
             let sources = extractSources retrievedDocuments;
                 avgRelevance = avgRelevanceOr1 retrievedDocuments;
                 confidence = min (avgRelevance * 1.2) 1.0
             in Inr \<lparr> gen_answer = trim answer,
                      gen_confidence = confidence,
                      gen_sources = sources,
                      gen_tokenUsage = estimateTokens answer,
                      gen_documentsUsed = length retrievedDocuments,
                      gen_avgRelevance = avgRelevance \<rparr>)"

section \<open>self-evaluation.ts\<close>

record Evaluation =
  ev_score :: real
  ev_feedback :: string
  ev_strengths :: "string list"
  ev_improvements :: "string list"

text \<open>The quantities \<^verbatim>\<open>heuristicEvaluation\<close> computes from its arguments.\<close>

definition answerLength :: "string \<Rightarrow> nat" where
  "answerLength generatedAnswer = length (splitWs generatedAnswer)"

definition queryKeywords :: "string \<Rightarrow> string list" where
  "queryKeywords query = filter (\<lambda>word. length word > 3) (splitWs (toLowerCase query))"

definition keywordCoverage :: "string \<Rightarrow> string \<Rightarrow> real" where
  "keywordCoverage query generatedAnswer =
     (let answerLower = toLowerCase generatedAnswer;
          keywordsAddressed = length (filter (\<lambda>kw. includesStr answerLower kw) (queryKeywords query))
      in real keywordsAddressed
           / (if queryKeywords query = [] then 1 else real (length (queryKeywords query))))"

definition avgRelevance :: "RetrievedDocument list \<Rightarrow> real" where
  "avgRelevance docs = (\<Sum>d\<leftarrow>docs. score d) / real (length docs)"

text \<open>
  \<^verbatim>\<open>heuristicEvaluation\<close> updates three variables, \<^verbatim>\<open>score\<close> (here \<open>s\<close>),
  \<^verbatim>\<open>strengths\<close> and \<^verbatim>\<open>improvements\<close>, in three consecutive \<^verbatim>\<open>if\<close> statements. Each
  statement is a function on the triple of the three variables.
\<close>

type_synonym heuristicState = "real \<times> string list \<times> string list"

definition checkLength :: "nat \<Rightarrow> heuristicState \<Rightarrow> heuristicState" where
  "checkLength n st =
     (case st of (s, strengths, improvements) \<Rightarrow>
        if n > 30 \<and> n < 500
        then (s + 0.1, strengths @ [''Answer has appropriate length''], improvements)
        else if n < 30
        then (s - 0.1, strengths, improvements @ [''Answer may be too brief''])
        else (s, strengths, improvements @ [''Answer may be too verbose'']))"

definition checkKeywords :: "real \<Rightarrow> heuristicState \<Rightarrow> heuristicState" where
  "checkKeywords coverage st =
     (case st of (s, strengths, improvements) \<Rightarrow>
        if coverage > 0.6
        then (s + 0.15,
              strengths @ [''Answer addresses key concepts from the question''], improvements)
        else (s - 0.1, strengths,
              improvements @ [''Answer may not fully address all aspects of the question'']))"

definition checkDocuments :: "RetrievedDocument list \<Rightarrow> heuristicState \<Rightarrow> heuristicState" where
  "checkDocuments retrievedDocuments st =
     (case st of (s, strengths, improvements) \<Rightarrow>
        if length retrievedDocuments > 0
        then (if avgRelevance retrievedDocuments > 0.7
              then (s + 0.15,
                    strengths @ [''High-quality relevant documents were used''], improvements)
              else if avgRelevance retrievedDocuments < 0.4
              then (s - 0.15, strengths,
                    improvements @ [''Retrieved documents may not be highly relevant''])
              else (s, strengths, improvements))
        else (s - 0.2, strengths, improvements @ [''No context documents were used'']))"

definition heuristicEvaluation ::
  "string \<Rightarrow> string \<Rightarrow> RetrievedDocument list \<Rightarrow> real \<Rightarrow> Evaluation" where
  "heuristicEvaluation query generatedAnswer retrievedDocuments confidence =
     (case checkDocuments retrievedDocuments
             (checkKeywords (keywordCoverage query generatedAnswer)
                (checkLength (answerLength generatedAnswer) (0.5, [], []))) of
        (score3, strengths, improvements) \<Rightarrow>
          let score4 = score3 * 0.7 + confidence * 0.3;
              finalScore = max 0 (min 1 score4);
              feedback =
                (if finalScore > 0.7 then ''Answer appears to be of good quality''
                 else if finalScore > 0.5 then ''Answer is acceptable but could be improved''
                 else ''Answer may need significant improvement'')
          in \<lparr> ev_score = finalScore, ev_feedback = feedback,
               ev_strengths = strengths, ev_improvements = improvements \<rparr>)"

text \<open>
  What the evaluation model's reply parses to. The parameter \<open>evaluationLLM\<close> of
  \<open>evaluateAnswer\<close> stands for the call, the search for a \<^verbatim>\<open>{...}\<close> block and
  \<^verbatim>\<open>JSON.parse\<close>: \<open>Inl\<close> when any of the three throws.
\<close>

record ParsedEvaluation =
  pe_score :: real
  pe_feedback :: string
  pe_strengths :: "string list"
  pe_improvements :: "string list"

definition evaluateAnswer ::
  "(string \<Rightarrow> string list \<Rightarrow> string \<Rightarrow> real \<Rightarrow> error + ParsedEvaluation)
     \<Rightarrow> string \<Rightarrow> string \<Rightarrow> RetrievedDocument list \<Rightarrow> real \<Rightarrow> Evaluation" where
  "evaluateAnswer evaluationLLM query generatedAnswer retrievedDocuments confidence =
     (let contextTexts = map content (take 3 retrievedDocuments)
      in case evaluationLLM query contextTexts generatedAnswer confidence of
           Inl e \<Rightarrow> heuristicEvaluation query generatedAnswer retrievedDocuments confidence
         | Inr evaluation \<Rightarrow>
             let avgDocumentScore = avgRelevanceOr1 retrievedDocuments;
                 a0 = pe_score evaluation;
                 a1 = (if avgDocumentScore < 0.5 then a0 * 0.8 else a0);
                 a2 = (if confidence < 0.5 then a1 * 0.9 else a1)
             in \<lparr> ev_score = max 0 (min 1 a2),
                  ev_feedback = pe_feedback evaluation,
                  ev_strengths = pe_strengths evaluation,
                  ev_improvements = pe_improvements evaluation \<rparr>)"

text \<open>
  The fallback as the specification words it, for comparison with the code: the length
  bonus on the closed interval [30, 500] and a penalty otherwise, the keyword bonus from
  60 percent on.
\<close>

definition specHeuristicScore ::
  "string \<Rightarrow> string \<Rightarrow> RetrievedDocument list \<Rightarrow> real \<Rightarrow> real" where
  "specHeuristicScore query generatedAnswer retrievedDocuments confidence =
     (let n = answerLength generatedAnswer;
          base = 0.5;
          lengthTerm = (if 30 \<le> n \<and> n \<le> 500 then 0.1 else - 0.1);
          keywordTerm = (if keywordCoverage query generatedAnswer \<ge> 0.6 then 0.15 else - 0.1);
          documentTerm =
            (if retrievedDocuments = [] then - 0.2
             else if avgRelevance retrievedDocuments > 0.7 then 0.15
             else if avgRelevance retrievedDocuments < 0.4 then - 0.15
             else 0)
      in max 0 (min 1 ((base + lengthTerm + keywordTerm + documentTerm) * 0.7 + confidence * 0.3)))"

section \<open>query-refinement.ts\<close>

text \<open>
  A row of the refinement table. \<open>ref_improvementScore\<close> is null until feedback arrives;
  \<open>ref_lastUsed\<close> is a timestamp.
\<close>

record RefinementRecord =
  ref_id :: nat
  ref_originalQuery :: string
  ref_refinedQuery :: string
  ref_mode :: string
  ref_subject :: "string option"
  ref_improvementScore :: "real option"
  ref_usageCount :: nat
  ref_lastUsed :: nat

text \<open>Which operations of the record store throw in a given call.\<close>

record StoreFaults =
  findManyFails :: bool
  findFirstFails :: bool
  updateFails :: bool
  createFails :: bool

text \<open>
  The \<^verbatim>\<open>findMany\<close> of \<^verbatim>\<open>refineQuery\<close>: rows of the mode (and of the subject, when
  \<^verbatim>\<open>subject || undefined\<close> is a non-empty string) with an improvement score of at least
  0.7, ordered by usage count and then by score, both descending; the first five.
\<close>

definition historicalRefinements ::
  "RefinementRecord list \<Rightarrow> string \<Rightarrow> string option \<Rightarrow> RefinementRecord list" where
  "historicalRefinements rows mode subject =
     take 5
       (sort_key (\<lambda>r. - int (ref_usageCount r))
          (sort_key (\<lambda>r. case ref_improvementScore r of None \<Rightarrow> 0 | Some x \<Rightarrow> - x)
             (filter
                (\<lambda>r. ref_mode r = mode
                   \<and> (case subject of
                        None \<Rightarrow> True
                      | Some sub \<Rightarrow> sub = [] \<or> ref_subject r = Some sub)
                   \<and> (case ref_improvementScore r of None \<Rightarrow> False | Some x \<Rightarrow> x \<ge> 0.7))
                rows)))"

text \<open>
  The \<^verbatim>\<open>where\<close> clause of \<^verbatim>\<open>storeRefinementAttempt\<close>: both queries are compared with
  \<^verbatim>\<open>mode: "insensitive"\<close>, that is up to letter case; an undefined subject adds no filter.
\<close>

definition sameRefinement ::
  "string \<Rightarrow> string \<Rightarrow> string \<Rightarrow> string option \<Rightarrow> RefinementRecord \<Rightarrow> bool" where
  "sameRefinement originalQuery refinedQuery mode subject r =
     (toLowerCase (ref_originalQuery r) = toLowerCase originalQuery
      \<and> toLowerCase (ref_refinedQuery r) = toLowerCase refinedQuery
      \<and> ref_mode r = mode
      \<and> (case subject of None \<Rightarrow> True | Some sub \<Rightarrow> ref_subject r = Some sub))"

definition freshId :: "RefinementRecord list \<Rightarrow> nat" where
  "freshId rows = Suc (foldr max (map ref_id rows) 0)"

definition bumpUsage :: "nat \<Rightarrow> RefinementRecord \<Rightarrow> RefinementRecord" where
  "bumpUsage now r = r\<lparr> ref_usageCount := ref_usageCount r + 1, ref_lastUsed := now \<rparr>"

text \<open>
  \<^verbatim>\<open>storeRefinementAttempt\<close> on the table \<open>rows\<close>; it returns the table afterwards. Its
  \<^verbatim>\<open>try\<close>/\<^verbatim>\<open>catch\<close> swallows every store error, which leaves the table unchanged.
\<close>

definition storeRefinementAttempt ::
  "StoreFaults \<Rightarrow> nat \<Rightarrow> RefinementRecord list \<Rightarrow> string \<Rightarrow> string \<Rightarrow> string \<Rightarrow> string option
     \<Rightarrow> RefinementRecord list" where
  "storeRefinementAttempt faults now rows originalQuery refinedQuery mode subject =
     (if findFirstFails faults then rows
      else
        (case find (sameRefinement originalQuery refinedQuery mode subject) rows of
           Some existing \<Rightarrow>
             if updateFails faults then rows
             else map (\<lambda>r. if ref_id r = ref_id existing then bumpUsage now r else r) rows
         | None \<Rightarrow>
             if createFails faults then rows
             else rows @
               [\<lparr> ref_id = freshId rows,
                  ref_originalQuery = originalQuery,
                  ref_refinedQuery = refinedQuery,
                  ref_mode = mode,
                  ref_subject = subject,
                  ref_improvementScore = None,
                  ref_usageCount = 1,
                  ref_lastUsed = now \<rparr>]))"

text \<open>
  \<^verbatim>\<open>refineQuery\<close>. The rewrite model \<open>refinementLLM\<close> receives the template inputs (mode,
  subject or \<^verbatim>\<open>"general"\<close>, attempt number, original query, the historical rows the
  guidance text is built from). The function returns the query and the table afterwards;
  the outer \<^verbatim>\<open>catch\<close> returns the original query, so the function itself never throws.
\<close>

definition refineQuery ::
  "StoreFaults \<Rightarrow> nat
     \<Rightarrow> (string \<Rightarrow> string \<Rightarrow> nat \<Rightarrow> string \<Rightarrow> RefinementRecord list \<Rightarrow> error + string)
     \<Rightarrow> RefinementRecord list \<Rightarrow> string \<Rightarrow> string \<Rightarrow> string option \<Rightarrow> nat
     \<Rightarrow> (error + string) \<times> RefinementRecord list" where
  "refineQuery faults now refinementLLM rows originalQuery mode subject attemptNumber =
     (if attemptNumber = 0 then (Inr originalQuery, rows)
      else if findManyFails faults then (Inr originalQuery, rows)
      else
        (case refinementLLM mode
                (case subject of None \<Rightarrow> ''general'' | Some sub \<Rightarrow> if sub = [] then ''general'' else sub)
                attemptNumber originalQuery (historicalRefinements rows mode subject) of
           Inl e \<Rightarrow> (Inr originalQuery, rows)
         | Inr result \<Rightarrow>
             let refinedQuery = trim result
             in (Inr refinedQuery,
                 storeRefinementAttempt faults now rows originalQuery refinedQuery mode subject)))"

definition noFaults :: StoreFaults where
  "noFaults = \<lparr> findManyFails = False, findFirstFails = False, updateFails = False,
                 createFails = False \<rparr>"

definition failingRefinementLLM ::
  "string \<Rightarrow> string \<Rightarrow> nat \<Rightarrow> string \<Rightarrow> RefinementRecord list \<Rightarrow> error + string" where
  "failingRefinementLLM mode subject attemptNumber originalQuery history =
     Inl (Error ''429 rate limit exceeded'')"

definition expandingRefinementLLM ::
  "string \<Rightarrow> string \<Rightarrow> nat \<Rightarrow> string \<Rightarrow> RefinementRecord list \<Rightarrow> error + string" where
  "expandingRefinementLLM mode subject attemptNumber originalQuery history =
     Inr '' solve the linear equation ''"

section \<open>document-processing.ts\<close>

text \<open>
  \<^verbatim>\<open>text.match(/[^.!?]+[.!?]+/g)\<close>: the successive leftmost matches of a non-empty run of
  characters other than \<^verbatim>\<open>.\<close>, \<^verbatim>\<open>!\<close>, \<^verbatim>\<open>?\<close> followed by a non-empty run of these three.
  The scan keeps the match being read in \<open>cur\<close> (reversed); \<open>inTerm\<close> tells that its
  terminator run has begun. Terminators before any other character are skipped, and a
  trailing run without terminator is no match.
\<close>

definition isTerminator :: "char \<Rightarrow> bool" where
  "isTerminator c = (c = CHR ''.'' \<or> c = CHR ''!'' \<or> c = CHR ''?'')"

fun matchAux :: "string \<Rightarrow> string \<Rightarrow> bool \<Rightarrow> string list" where
  "matchAux [] cur inTerm = (if inTerm then [rev cur] else [])"
| "matchAux (c # cs) cur inTerm =
     (if isTerminator c
      then (if cur = [] then matchAux cs [] False else matchAux cs (c # cur) True)
      else (if inTerm then rev cur # matchAux cs [c] False else matchAux cs (c # cur) False))"

definition matchSentences :: "string \<Rightarrow> string list" where
  "matchSentences text = matchAux text [] False"

text \<open>\<^verbatim>\<open>parts.join(sep)\<close>.\<close>

fun joinWith :: "string \<Rightarrow> string list \<Rightarrow> string" where
  "joinWith sep [] = []"
| "joinWith sep [x] = x"
| "joinWith sep (x # y # ys) = x @ sep @ joinWith sep (y # ys)"

record ChunkOptions =
  chunkSize :: nat
  chunkOverlap :: nat
  co_documentTitle :: string

record Chunk =
  chunk_content :: string
  chunk_metadata :: ChunkMetadata
  chunk_index :: nat

definition mkChunk :: "string \<Rightarrow> string \<Rightarrow> nat \<Rightarrow> nat \<Rightarrow> nat \<Rightarrow> Chunk" where
  "mkChunk currentChunk title chunkIndex sentenceStart sentenceEnd =
     \<lparr> chunk_content = currentChunk,
       chunk_metadata =
         \<lparr> meta_documentTitle = title, meta_chunkIndex = chunkIndex,
           meta_sentenceStart = sentenceStart, meta_sentenceEnd = sentenceEnd \<rparr>,
       chunk_index = chunkIndex \<rparr>"

text \<open>
  The body of the \<^verbatim>\<open>for\<close> loop of \<^verbatim>\<open>chunkDocument\<close> at index \<open>i\<close>, on the loop variables
  \<^verbatim>\<open>chunks\<close>, \<^verbatim>\<open>currentChunk\<close> and \<^verbatim>\<open>chunkIndex\<close>. \<^verbatim>\<open>Math.max(0, i - k)\<close> is the
  truncating subtraction on \<open>nat\<close>; \<^verbatim>\<open>sentences.slice(Math.max(0, i - 2), i)\<close> is
  \<open>drop (i - 2) (take i sentences)\<close>. The option \<^verbatim>\<open>chunkOverlap\<close> is destructured and
  never read.
\<close>

definition chunkStep ::
  "nat \<Rightarrow> string \<Rightarrow> string list \<Rightarrow> nat \<Rightarrow> Chunk list \<times> string \<times> nat
     \<Rightarrow> Chunk list \<times> string \<times> nat" where
  "chunkStep bound title sentences i st =
     (case st of (chunks, currentChunk, chunkIndex) \<Rightarrow>
        let sentence = trim (sentences ! i)
        in if length (currentChunk @ '' '' @ sentence) \<le> bound
           then (chunks,
                 currentChunk @ (if currentChunk \<noteq> [] then '' '' else []) @ sentence,
                 chunkIndex)
           else
             let (chunks', chunkIndex') =
                   (if currentChunk \<noteq> []
                    then (chunks @ [mkChunk currentChunk title chunkIndex (i - 5) i],
                          chunkIndex + 1)
                    else (chunks, chunkIndex));
                 overlapSentences = drop (i - 2) (take i sentences)
             in (chunks', joinWith '' '' overlapSentences @ '' '' @ sentence, chunkIndex'))"

definition chunkDocument :: "string \<Rightarrow> ChunkOptions \<Rightarrow> Chunk list" where
  "chunkDocument text options =
     (let sentences = (case matchSentences text of [] \<Rightarrow> [text] | m # ms \<Rightarrow> m # ms)
      in case fold (chunkStep (chunkSize options) (co_documentTitle options) sentences)
                [0..<length sentences] ([], [], 0) of
           (chunks, currentChunk, chunkIndex) \<Rightarrow>
             if currentChunk \<noteq> []
             then chunks @
               [mkChunk currentChunk (co_documentTitle options) chunkIndex
                  (length sentences - 5) (length sentences)]
             else chunks)"

text \<open>
  What every emitted chunk satisfies: it is within the size bound, or it is the seed of a
  new chunk, that is the up-to-two sentences before sentence \<open>i\<close> followed by sentence \<open>i\<close>.
\<close>

definition withinBoundOrSeed :: "nat \<Rightarrow> string list \<Rightarrow> string \<Rightarrow> bool" where
  "withinBoundOrSeed bound sentences c =
     (length c \<le> bound
      \<or> (\<exists>i<length sentences.
            c = joinWith '' '' (drop (i - 2) (take i sentences)) @ '' '' @ trim (sentences ! i)))"

text \<open>
  The options both callers pass, and a text of three sentences of 400 characters each
  (399 letters and a full stop), separated by single spaces.
\<close>

definition defaultChunkOptions :: ChunkOptions where
  "defaultChunkOptions =
     \<lparr> chunkSize = 1000, chunkOverlap = 200, co_documentTitle = ''Algebra notes'' \<rparr>"

definition longSentence :: string where
  "longSentence = replicate 399 (CHR ''a'') @ ''.''"

definition threeSentences :: string where
  "threeSentences = longSentence @ '' '' @ longSentence @ '' '' @ longSentence"

section \<open>analytics.ts\<close>

text \<open>
  The fields of an analytics event that the workflow sets (timings and the free-form
  metadata are left out). \<^verbatim>\<open>logAnalytics\<close> never throws: a failing insert is caught and the
  table stays as it was. An event without \<^verbatim>\<open>success\<close> is stored as successful.
\<close>

record AnalyticsEvent =
  ae_userId :: "string option"
  ae_eventType :: string
  ae_queryText :: "string option"
  ae_documentsRetrieved :: "nat option"
  ae_tokenUsage :: "nat option"
  ae_success :: "bool option"
  ae_errorMessage :: "string option"

definition logAnalytics :: "bool \<Rightarrow> AnalyticsEvent list \<Rightarrow> AnalyticsEvent \<Rightarrow> AnalyticsEvent list" where
  "logAnalytics insertFails table event =
     (if insertFails then table
      else table @
        [event\<lparr> ae_success := Some (case ae_success event of None \<Rightarrow> True | Some b \<Rightarrow> b) \<rparr>])"

section \<open>rag-workflow.ts\<close>

text \<open>
  The external services of a workflow run and the tables it writes. \<open>svc_toFixed2\<close> and
  \<open>svc_showNat\<close> stand for the number formatting inside the system messages;
  \<open>svc_graphFault\<close> is an exception raised by the graph library itself when the workflow is
  built or invoked.
\<close>

record Services =
  svc_generateEmbedding :: "string \<Rightarrow> error + real list"
  svc_chunks :: "StoredChunk list"
  svc_refinementLLM ::
    "string \<Rightarrow> string \<Rightarrow> nat \<Rightarrow> string \<Rightarrow> RefinementRecord list \<Rightarrow> error + string"
  svc_answerLLM ::
    "string \<Rightarrow> RetrievedDocument list \<Rightarrow> string \<Rightarrow> BaseMessage list \<Rightarrow> error + string"
  svc_evaluationLLM ::
    "string \<Rightarrow> string list \<Rightarrow> string \<Rightarrow> real \<Rightarrow> error + ParsedEvaluation"
  svc_storeFaults :: StoreFaults
  svc_analyticsFails :: bool
  svc_now :: nat
  svc_toFixed2 :: "real \<Rightarrow> string"
  svc_showNat :: "nat \<Rightarrow> string"
  svc_graphFault :: "error option"

record World =
  refinements :: "RefinementRecord list"
  analytics :: "AnalyticsEvent list"

record WorkflowOptions =
  wo_subject :: "string option"
  wo_gradeLevel :: "nat option"

record RAGState =
  originalQuery :: string
  refinedQuery :: "string option"
  userId :: string
  userRole :: role
  mode :: string
  subject :: "string option"
  gradeLevel :: "nat option"
  conversationId :: string
  retrievedDocuments :: "RetrievedDocument list"
  relevanceScores :: "real list option"
  generatedAnswer :: "string option"
  confidence :: "real option"
  sources :: "string list option"
  needsRefinement :: bool
  refinementAttempts :: nat
  evaluationScore :: "real option"
  feedback :: "string option"
  messages :: "BaseMessage list"
  startTime :: nat
  tokenUsage :: nat
  error :: "string option"

definition createInitialState ::
  "nat \<Rightarrow> string \<Rightarrow> string \<Rightarrow> role \<Rightarrow> string \<Rightarrow> string \<Rightarrow> WorkflowOptions option \<Rightarrow> RAGState" where
  "createInitialState now query uid urole m cid options =
     \<lparr> originalQuery = query,
       refinedQuery = None,
       userId = uid,
       userRole = urole,
       mode = m,
       subject = (case options of None \<Rightarrow> None | Some opts \<Rightarrow> wo_subject opts),
       gradeLevel = (case options of None \<Rightarrow> None | Some opts \<Rightarrow> wo_gradeLevel opts),
       conversationId = cid,
       retrievedDocuments = [],
       relevanceScores = None,
       generatedAnswer = None,
       confidence = None,
       sources = None,
       needsRefinement = False,
       refinementAttempts = 0,
       evaluationScore = None,
       feedback = None,
       messages = [HumanMessage query],
       startTime = now,
       tokenUsage = 0,
       error = None \<rparr>"

text \<open>
  Every node returns a partial state that the graph merges into the current state (each
  channel keeps the last value written). A node is modelled as the function from the
  tables and the state before to the tables and the state after.
\<close>

definition queryRefinementNode :: "Services \<Rightarrow> World \<times> RAGState \<Rightarrow> World \<times> RAGState" where
  "queryRefinementNode svc ws =
     (case ws of (w, state) \<Rightarrow>
        (case refineQuery (svc_storeFaults svc) (svc_now svc) (svc_refinementLLM svc)
                (refinements w) (originalQuery state) (mode state) (subject state)
                (refinementAttempts state) of
           (Inr rq, rows) \<Rightarrow>
             (w\<lparr> refinements := rows \<rparr>,
              state\<lparr> refinedQuery := Some rq,
                     refinementAttempts := refinementAttempts state + 1,
                     messages := messages state @ [SystemMessage (''Query refined: '' @ rq)] \<rparr>)
         | (Inl e, rows) \<Rightarrow>
             (w\<lparr> refinements := rows \<rparr>,
              state\<lparr> refinedQuery := Some (originalQuery state),
                     refinementAttempts := refinementAttempts state + 1 \<rparr>)))"

text \<open>\<^verbatim>\<open>state.refinedQuery || state.originalQuery\<close>: an empty refined query is falsy.\<close>

definition queryToUse :: "RAGState \<Rightarrow> string" where
  "queryToUse state =
     (case refinedQuery state of
        None \<Rightarrow> originalQuery state
      | Some rq \<Rightarrow> if rq = [] then originalQuery state else rq)"

definition documentRetrievalNode :: "Services \<Rightarrow> World \<times> RAGState \<Rightarrow> World \<times> RAGState" where
  "documentRetrievalNode svc ws =
     (case ws of (w, state) \<Rightarrow>
        (case retrieveDocuments (svc_generateEmbedding svc) (svc_chunks svc) (queryToUse state)
                \<lparr> opt_subject = subject state, opt_gradeLevel = gradeLevel state,
                  opt_userRole = userRole state, opt_topK = Some 5 \<rparr> of
           Inr docs \<Rightarrow>
             let scores = map score docs;
                 avgText = (if docs = [] then ''NaN''
                            else svc_toFixed2 svc (sum_list scores / real (length scores)))
             in (w\<lparr> analytics := logAnalytics (svc_analyticsFails svc) (analytics w)
                        \<lparr> ae_userId = Some (userId state), ae_eventType = ''retrieval'',
                          ae_queryText = Some (queryToUse state),
                          ae_documentsRetrieved = Some (length docs), ae_tokenUsage = None,
                          ae_success = None, ae_errorMessage = None \<rparr> \<rparr>,
                 state\<lparr> retrievedDocuments := docs,
                        relevanceScores := Some scores,
                        messages := messages state @
                          [SystemMessage (''Retrieved '' @ svc_showNat svc (length docs)
                             @ '' documents (avg relevance: '' @ avgText @ '')'')] \<rparr>)
         | Inl e \<Rightarrow>
             (w, state\<lparr> retrievedDocuments := [], error := Some (message e) \<rparr>)))"

definition generationApology :: string where
  "generationApology =
     ''I apologize, but I encountered an error generating an answer. Please try again.''"

definition answerGenerationNode :: "Services \<Rightarrow> World \<times> RAGState \<Rightarrow> World \<times> RAGState" where
  "answerGenerationNode svc ws =
     (case ws of (w, state) \<Rightarrow>
        (case generateAnswer (svc_answerLLM svc) (queryToUse state) (retrievedDocuments state)
                (mode state) (messages state) of
           Inr result \<Rightarrow>
             (w\<lparr> analytics := logAnalytics (svc_analyticsFails svc) (analytics w)
                     \<lparr> ae_userId = Some (userId state), ae_eventType = ''generation'',
                       ae_queryText = Some (queryToUse state),
                       ae_documentsRetrieved = None,
                       ae_tokenUsage = Some (gen_tokenUsage result),
                       ae_success = None, ae_errorMessage = None \<rparr> \<rparr>,
              state\<lparr> generatedAnswer := Some (gen_answer result),
                     confidence := Some (gen_confidence result),
                     sources := Some (gen_sources result),
                     tokenUsage := tokenUsage state + gen_tokenUsage result,
                     messages := messages state @ [AIMessage (gen_answer result)] \<rparr>)
         | Inl e \<Rightarrow>
             (w, state\<lparr> error := Some (message e),
                         generatedAnswer := Some generationApology \<rparr>)))"

text \<open>
  \<^verbatim>\<open>selfEvaluationNode\<close>. \<^verbatim>\<open>!state.generatedAnswer\<close> holds for a missing and for an empty
  answer. \<^verbatim>\<open>evaluateAnswer\<close> catches every error of the evaluation model itself and the
  heuristic is total, so the node's own \<^verbatim>\<open>catch\<close> block is never entered.
\<close>

definition selfEvaluationNode :: "Services \<Rightarrow> World \<times> RAGState \<Rightarrow> World \<times> RAGState" where
  "selfEvaluationNode svc ws =
     (case ws of (w, state) \<Rightarrow>
        (case generatedAnswer state of
           None \<Rightarrow> (w, state\<lparr> evaluationScore := Some 0, needsRefinement := True \<rparr>)
         | Some answer \<Rightarrow>
             if answer = []
             then (w, state\<lparr> evaluationScore := Some 0, needsRefinement := True \<rparr>)
             else
               let evaluation =
                     evaluateAnswer (svc_evaluationLLM svc) (originalQuery state) answer
                       (retrievedDocuments state)
                       (case confidence state of None \<Rightarrow> 0 | Some c \<Rightarrow> c);
                   needs =
                     (ev_score evaluation < 0.7
                      \<and> refinementAttempts state < 3
                      \<and> length (retrievedDocuments state) > 0)
               in (w, state\<lparr> evaluationScore := Some (ev_score evaluation),
                              needsRefinement := needs,
                              feedback := Some (ev_feedback evaluation),
                              messages := messages state @
                                [SystemMessage (''Self-evaluation score: ''
                                   @ svc_toFixed2 svc (ev_score evaluation) @ '' ''
                                   @ (if needs then ''(refinement needed)'' else ''''))] \<rparr>)))"

definition shouldRefine :: "RAGState \<Rightarrow> string" where
  "shouldRefine state =
     (if needsRefinement state \<and> refinementAttempts state < 3 then ''refine'' else ''end'')"

text \<open>
  The graph of \<^verbatim>\<open>buildRAGWorkflow\<close>: the four nodes in a row, then the conditional edge
  \<^verbatim>\<open>shouldRefine\<close> back to the first node or to \<^verbatim>\<open>END\<close>. \<open>cycle\<close> is one pass through the
  four nodes.
\<close>

definition cycle :: "Services \<Rightarrow> World \<times> RAGState \<Rightarrow> World \<times> RAGState" where
  "cycle svc ws =
     selfEvaluationNode svc
       (answerGenerationNode svc (documentRetrievalNode svc (queryRefinementNode svc ws)))"

lemma queryRefinementNode_attempts:
  "refinementAttempts (snd (queryRefinementNode svc ws)) = Suc (refinementAttempts (snd ws))"
  by (cases ws) (auto simp: queryRefinementNode_def split: prod.splits sum.splits)

lemma documentRetrievalNode_attempts:
  "refinementAttempts (snd (documentRetrievalNode svc ws)) = refinementAttempts (snd ws)"
  by (cases ws) (auto simp: documentRetrievalNode_def Let_def split: sum.splits)

lemma answerGenerationNode_attempts:
  "refinementAttempts (snd (answerGenerationNode svc ws)) = refinementAttempts (snd ws)"
  by (cases ws) (auto simp: answerGenerationNode_def split: sum.splits)

lemma selfEvaluationNode_attempts:
  "refinementAttempts (snd (selfEvaluationNode svc ws)) = refinementAttempts (snd ws)"
  by (cases ws) (auto simp: selfEvaluationNode_def Let_def split: option.splits)

lemma cycle_attempts:
  "refinementAttempts (snd (cycle svc ws)) = Suc (refinementAttempts (snd ws))"
  by (simp add: cycle_def selfEvaluationNode_attempts answerGenerationNode_attempts
      documentRetrievalNode_attempts queryRefinementNode_attempts)

function runGraph :: "Services \<Rightarrow> World \<times> RAGState \<Rightarrow> World \<times> RAGState" where
  "runGraph svc ws =
     (if shouldRefine (snd (cycle svc ws)) = ''refine''
      then runGraph svc (cycle svc ws)
      else cycle svc ws)"
  by pat_completeness auto
termination
proof (relation "measure (\<lambda>(svc, ws). 3 - refinementAttempts (snd ws))")
  show "wf (measure (\<lambda>(svc, ws). 3 - refinementAttempts (snd ws)))" by simp
next
  fix svc :: Services and ws :: "World \<times> RAGState"
  assume "shouldRefine (snd (cycle svc ws)) = ''refine''"
  then have "refinementAttempts (snd (cycle svc ws)) < 3"
    by (simp add: shouldRefine_def split: if_splits)
  then show "((svc, cycle svc ws), (svc, ws)) \<in> measure (\<lambda>(svc, ws). 3 - refinementAttempts (snd ws))"
    by (simp add: cycle_attempts)
qed

declare runGraph.simps [simp del]

text \<open>
  \<^verbatim>\<open>executeRAGWorkflow\<close>. \<open>invoke\<close> is \<^verbatim>\<open>buildRAGWorkflow()\<close> followed by
  \<^verbatim>\<open>workflow.invoke(initialState)\<close>: the graph library throws (before any node has run) or
  the graph runs to \<^verbatim>\<open>END\<close>.
\<close>

definition invoke :: "Services \<Rightarrow> World \<Rightarrow> RAGState \<Rightarrow> error + World \<times> RAGState" where
  "invoke svc w initialState =
     (case svc_graphFault svc of
        Some e \<Rightarrow> Inl e
      | None \<Rightarrow> Inr (runGraph svc (w, initialState)))"

record WorkflowMetadata =
  wm_refinementAttempts :: nat
  wm_evaluationScore :: "real option"
  wm_tokenUsage :: nat

record WorkflowResult =
  wr_success :: bool
  wr_answer :: "string option"
  wr_confidence :: "real option"
  wr_sources :: "string list option"
  wr_documents :: "RetrievedDocument list option"
  wr_metadata :: "WorkflowMetadata option"
  wr_error :: "string option"

definition workflowApology :: string where
  "workflowApology =
     ''I apologize, but I encountered an error processing your request. Please try again.''"

text \<open>\<^verbatim>\<open>!result.error\<close>: a missing error and an empty error text are both falsy.\<close>

definition noError :: "RAGState \<Rightarrow> bool" where
  "noError state = (case error state of None \<Rightarrow> True | Some m \<Rightarrow> m = [])"

definition executeRAGWorkflow ::
  "Services \<Rightarrow> World \<Rightarrow> string \<Rightarrow> string \<Rightarrow> role \<Rightarrow> string \<Rightarrow> string \<Rightarrow> WorkflowOptions option
     \<Rightarrow> World \<times> (error + WorkflowResult)" where
  "executeRAGWorkflow svc w query uid urole m cid options =
     (case invoke svc w (createInitialState (svc_now svc) query uid urole m cid options) of
        Inr (w', result) \<Rightarrow>
          (w'\<lparr> analytics := logAnalytics (svc_analyticsFails svc) (analytics w')
                  \<lparr> ae_userId = Some uid, ae_eventType = ''workflow_complete'',
                    ae_queryText = Some query, ae_documentsRetrieved = None,
                    ae_tokenUsage = Some (tokenUsage result),
                    ae_success = Some (noError result),
                    ae_errorMessage = error result \<rparr> \<rparr>,
           Inr \<lparr> wr_success = noError result,
                 wr_answer = generatedAnswer result,
                 wr_confidence = confidence result,
                 wr_sources = sources result,
                 wr_documents = Some (retrievedDocuments result),
                 wr_metadata =
                   Some \<lparr> wm_refinementAttempts = refinementAttempts result,
                          wm_evaluationScore = evaluationScore result,
                          wm_tokenUsage = tokenUsage result \<rparr>,
                 wr_error = None \<rparr>)
      | Inl e \<Rightarrow>
          (w\<lparr> analytics := logAnalytics (svc_analyticsFails svc) (analytics w)
                 \<lparr> ae_userId = Some uid, ae_eventType = ''workflow_error'',
                   ae_queryText = Some query, ae_documentsRetrieved = None,
                   ae_tokenUsage = None, ae_success = Some False,
                   ae_errorMessage = Some (message e) \<rparr> \<rparr>,
           Inr \<lparr> wr_success = False,
                 wr_answer = Some workflowApology,
                 wr_confidence = None,
                 wr_sources = None,
                 wr_documents = None,
                 wr_metadata = None,
                 wr_error = Some (message e) \<rparr>))"


section \<open>Concrete inputs\<close>

text \<open>Concrete inputs for the generation and evaluation steps.\<close>

definition oppositeChunk :: StoredChunk where
  "oppositeChunk =
     \<lparr> stored_id = ''opposite'', stored_content = ''an unrelated passage'',
       stored_embedding = Vec [- 1, 0], stored_chunkIndex = 0, stored_metadata = None,
       stored_document = exampleDocument \<rparr>"

definition okLLM :: "string \<Rightarrow> RetrievedDocument list \<Rightarrow> string \<Rightarrow> BaseMessage list \<Rightarrow> error + string" where
  "okLLM query docs m history = Inr ''Four.''"

definition verboseAnswer :: string where
  "verboseAnswer = concat (replicate 600 ''a '')"

definition failingEvaluationLLM ::
  "string \<Rightarrow> string list \<Rightarrow> string \<Rightarrow> real \<Rightarrow> error + ParsedEvaluation" where
  "failingEvaluationLLM query contextTexts answer conf =
     Inl (Error ''Could not parse evaluation response'')"

text \<open>Concrete services for workflow runs: an empty chunk table and failing helper models.\<close>

definition blankLLM :: "string \<Rightarrow> RetrievedDocument list \<Rightarrow> string \<Rightarrow> BaseMessage list \<Rightarrow> error + string" where
  "blankLLM query docs m history = Inr ''  ''"

definition plainServices :: Services where
  "plainServices =
     \<lparr> svc_generateEmbedding = exampleEmbedding,
       svc_chunks = [],
       svc_refinementLLM = failingRefinementLLM,
       svc_answerLLM = okLLM,
       svc_evaluationLLM = failingEvaluationLLM,
       svc_storeFaults = noFaults,
       svc_analyticsFails = False,
       svc_now = 0,
       svc_toFixed2 = (\<lambda>x. ''0.00''),
       svc_showNat = (\<lambda>n. ''0''),
       svc_graphFault = None \<rparr>"

definition blankServices :: Services where
  "blankServices = plainServices\<lparr> svc_answerLLM := blankLLM \<rparr>"

definition faultyServices :: Services where
  "faultyServices = plainServices\<lparr> svc_graphFault := Some (Error ''Recursion limit of 25 reached'') \<rparr>"

definition emptyWorld :: World where
  "emptyWorld = \<lparr> refinements = [], analytics = [] \<rparr>"

definition exampleInitialState :: RAGState where
  "exampleInitialState =
     createInitialState 0 ''2+2=4, true or false?'' ''user-1'' Student ''math_solver'' ''conv-1'' None"

definition halfScoreEvaluationLLM ::
  "string \<Rightarrow> string list \<Rightarrow> string \<Rightarrow> real \<Rightarrow> error + ParsedEvaluation" where
  "halfScoreEvaluationLLM query contextTexts answer conf =
     Inr \<lparr> pe_score = 1 / 2, pe_feedback = ''Partly correct'', pe_strengths = [],
           pe_improvements = [''Explain the steps''] \<rparr>"

definition scenarioServices :: Services where
  "scenarioServices = plainServices\<lparr> svc_evaluationLLM := halfScoreEvaluationLLM \<rparr>"

definition scenarioState :: RAGState where
  "scenarioState =
     exampleInitialState
       \<lparr> retrievedDocuments := [scoredChunk bestChunk (9 / 10)],
         generatedAnswer := Some ''Four.'',
         confidence := Some 1,
         refinementAttempts := 1 \<rparr>"

definition failingAnswerLLM ::
  "string \<Rightarrow> RetrievedDocument list \<Rightarrow> string \<Rightarrow> BaseMessage list \<Rightarrow> error + string" where
  "failingAnswerLLM query docs m history = Inl (Error ''503 service unavailable'')"

definition brokenGenerationServices :: Services where
  "brokenGenerationServices = plainServices\<lparr> svc_answerLLM := failingAnswerLLM \<rparr>"

text \<open>The state before the Evaluate step has no usable answer.\<close>

definition answerMissing :: "RAGState \<Rightarrow> bool" where
  "answerMissing state = (generatedAnswer state = None \<or> generatedAnswer state = Some [])"

text \<open>
  A stored refinement of subject physics, and services whose embedding model is down.
\<close>

definition physicsRow :: RefinementRecord where
  "physicsRow =
     \<lparr> ref_id = 1, ref_originalQuery = ''solve eq'',
       ref_refinedQuery = ''solve the linear equation'', ref_mode = ''math_solver'',
       ref_subject = Some ''physics'', ref_improvementScore = None, ref_usageCount = 1,
       ref_lastUsed = 3 \<rparr>"

definition failingEmbedding :: "string \<Rightarrow> error + real list" where
  "failingEmbedding q = Inl (Error ''embedding service unavailable'')"

definition embeddingDownServices :: Services where
  "embeddingDownServices = plainServices\<lparr> svc_generateEmbedding := failingEmbedding \<rparr>"

text \<open>
  The call of \<^verbatim>\<open>generateAnswer\<close> that \<^verbatim>\<open>answerGenerationNode\<close> makes when it starts from \<open>ws\<close>.
\<close>

definition generationCall :: "Services \<Rightarrow> World \<times> RAGState \<Rightarrow> error + GenerationResult" where
  "generationCall svc ws =
     generateAnswer (svc_answerLLM svc) (queryToUse (snd ws)) (retrievedDocuments (snd ws))
       (mode (snd ws)) (messages (snd ws))"

section \<open>Verification: vector store\<close>

subsection \<open>Facts about the accumulation loop\<close>

lemma accumulate_sums:
  "length as = length bs \<Longrightarrow>
   accumulate as bs (d, na, nb) =
     (d + (\<Sum>(x, y)\<leftarrow>zip as bs. x * y), na + (\<Sum>x\<leftarrow>as. x * x), nb + (\<Sum>y\<leftarrow>bs. y * y))"
proof (induction as bs arbitrary: d na nb rule: list_induct2)
  case Nil
  then show ?case by simp
next
  case (Cons a as b bs)
  show ?case by (simp add: Cons.IH algebra_simps)
qed

lemma sum_squares_nonneg: "0 \<le> (\<Sum>x\<leftarrow>(v :: real list). x * x)"
  by (induction v) auto

lemma dot_commute:
  "length as = length bs \<Longrightarrow>
   (\<Sum>(x, y)\<leftarrow>zip as bs. x * y) = (\<Sum>(y, x)\<leftarrow>zip bs as. y * (x :: real))"
  by (induction as bs rule: list_induct2) (auto simp: mult.commute)

lemma dot_self: "(\<Sum>(x, y)\<leftarrow>zip v v. x * y) = (\<Sum>x\<leftarrow>(v :: real list). x * x)"
  by (induction v) auto

lemma cs_step:
  fixes d A B a b :: real
  assumes "d\<^sup>2 \<le> A * B" "0 \<le> A" "0 \<le> B"
  shows "(d + a * b)\<^sup>2 \<le> (A + a * a) * (B + b * b)"
proof -
  have "(2 * d * a * b)\<^sup>2 = 4 * d\<^sup>2 * (a * b)\<^sup>2" by (simp add: power2_eq_square)
  also have "\<dots> \<le> 4 * (A * B) * (a * b)\<^sup>2"
    using assms(1) by (simp add: mult_left_mono mult_right_mono)
  also have "\<dots> = 4 * (A * (b * b)) * (B * (a * a))" by (simp add: power2_eq_square)
  also have "\<dots> \<le> (A * (b * b) + B * (a * a))\<^sup>2"
  proof -
    have "0 \<le> (A * (b * b) - B * (a * a))\<^sup>2" by simp
    then show ?thesis by (simp add: power2_eq_square algebra_simps)
  qed
  finally have "(2 * d * a * b)\<^sup>2 \<le> (A * (b * b) + B * (a * a))\<^sup>2" .
  moreover have "0 \<le> A * (b * b) + B * (a * a)" using assms by simp
  ultimately have "2 * d * a * b \<le> A * (b * b) + B * (a * a)"
    using power2_le_imp_le abs_le_square_iff by (smt (verit) abs_ge_self)
  then show ?thesis using assms(1) by (simp add: power2_eq_square algebra_simps)
qed

lemma cauchy_schwarz_list:
  "length as = length bs \<Longrightarrow>
   (\<Sum>(x, y)\<leftarrow>zip as bs. x * y)\<^sup>2 \<le> (\<Sum>x\<leftarrow>as. x * x) * (\<Sum>y\<leftarrow>bs. y * (y::real))"
proof (induction as bs rule: list_induct2)
  case Nil
  then show ?case by simp
next
  case (Cons a as b bs)
  have "(sum_list (map2 (*) as bs) + a * b)\<^sup>2
          \<le> ((\<Sum>x\<leftarrow>as. x * x) + a * a) * ((\<Sum>y\<leftarrow>bs. y * y) + b * b)"
    by (rule cs_step[OF Cons.IH sum_squares_nonneg sum_squares_nonneg])
  then show ?case by (simp add: add.commute)
qed

lemma cosineSimilarity_eq:
  assumes "length a = length b"
  shows "cosineSimilarity a b =
     Inr (if vecNorm a = 0 \<or> vecNorm b = 0 then 0
          else (\<Sum>(x, y)\<leftarrow>zip a b. x * y) / (vecNorm a * vecNorm b))"
  using assms by (simp add: cosineSimilarity_def accumulate_sums vecNorm_def Let_def)

lemma dot_le_norms:
  assumes "length a = length b"
  shows "\<bar>\<Sum>(x, y)\<leftarrow>zip a b. x * y\<bar> \<le> vecNorm a * vecNorm b"
proof -
  have "sqrt ((\<Sum>(x, y)\<leftarrow>zip a b. x * y)\<^sup>2) \<le> sqrt ((\<Sum>x\<leftarrow>a. x * x) * (\<Sum>y\<leftarrow>b. y * y))"
    using cauchy_schwarz_list[OF assms] by (rule real_sqrt_le_mono)
  then show ?thesis by (simp add: vecNorm_def real_sqrt_mult)
qed

lemma vecNorm_nonneg: "0 \<le> vecNorm v"
  by (simp add: vecNorm_def sum_squares_nonneg)

lemma vecNorm_zero_iff: "vecNorm v = 0 \<longleftrightarrow> (\<forall>x\<in>set v. x = 0)"
proof -
  have "(\<Sum>x\<leftarrow>v. x * x) = 0 \<longleftrightarrow> (\<forall>x\<in>set v. x = 0)"
  proof (induction v)
    case Nil
    then show ?case by simp
  next
    case (Cons a v)
    have "0 \<le> a * a" by simp
    then show ?case using Cons sum_squares_nonneg[of v]
      by (auto simp: add_nonneg_eq_0_iff)
  qed
  then show ?thesis by (simp add: vecNorm_def)
qed

text \<open>
  The cosine similarity in exact arithmetic: for vectors of equal dimension the value lies
  between \<open>-1\<close> and \<open>1\<close>, is symmetric in its arguments, is 0 when either vector has zero
  norm (equivalently, is all-zero), and is 1 for a vector of nonzero norm with itself.
  This is a fact about the real-number reading of \<^verbatim>\<open>cosineSimilarity\<close> only. The source
  computes in IEEE doubles, where rounding moves the result (the self-similarity of
  \<^verbatim>\<open>[1, 1, 1]\<close> is \<^verbatim>\<open>1.0000000000000002\<close>), overflow of the squares gives \<^verbatim>\<open>NaN\<close> and
  underflow gives 0 for a nonzero vector; none of that is expressed here.
\<close>

lemma cosineSimilarity_exact_arithmetic:
  assumes "length a = length b"
  shows "\<exists>r. cosineSimilarity a b = Inr r \<and> - 1 \<le> r \<and> r \<le> 1
           \<and> cosineSimilarity b a = Inr r
           \<and> (vecNorm a = 0 \<or> vecNorm b = 0 \<longrightarrow> r = 0)
           \<and> ((\<forall>x\<in>set a. x = 0) \<or> (\<forall>y\<in>set b. y = 0) \<longrightarrow> r = 0)
           \<and> (vecNorm a \<noteq> 0 \<longrightarrow> cosineSimilarity a a = Inr 1)"
proof -
  let ?d = "\<Sum>(x, y)\<leftarrow>zip a b. x * y"
  let ?r = "if vecNorm a = 0 \<or> vecNorm b = 0 then 0 else ?d / (vecNorm a * vecNorm b)"
  have ab: "cosineSimilarity a b = Inr ?r" by (rule cosineSimilarity_eq[OF assms])
  have ba: "cosineSimilarity b a = Inr ?r"
    using assms dot_commute[OF assms] by (simp add: cosineSimilarity_eq mult.commute disj_commute)
  have bound: "\<bar>?r\<bar> \<le> 1"
  proof (cases "vecNorm a = 0 \<or> vecNorm b = 0")
    case True
    then show ?thesis by simp
  next
    case False
    then have pos: "0 < vecNorm a * vecNorm b"
      using vecNorm_nonneg[of a] vecNorm_nonneg[of b] by (simp add: less_le)
    have "\<bar>?d / (vecNorm a * vecNorm b)\<bar> = \<bar>?d\<bar> / (vecNorm a * vecNorm b)"
      using vecNorm_nonneg[of a] vecNorm_nonneg[of b] by (simp add: abs_mult)
    also have "\<dots> \<le> 1" using dot_le_norms[OF assms] pos by simp
    finally show ?thesis using False by simp
  qed
  have zero: "vecNorm a = 0 \<or> vecNorm b = 0 \<longrightarrow> ?r = 0" by simp
  have self: "vecNorm a \<noteq> 0 \<longrightarrow> cosineSimilarity a a = Inr 1"
  proof
    assume nz: "vecNorm a \<noteq> 0"
    have "(\<Sum>x\<leftarrow>a. x * x) = vecNorm a * vecNorm a"
      by (simp add: vecNorm_def sum_squares_nonneg)
    then show "cosineSimilarity a a = Inr 1"
      using nz by (simp add: cosineSimilarity_eq dot_self)
  qed
  show ?thesis
    using ab ba bound zero self by (auto simp: vecNorm_zero_iff abs_le_iff)
qed

lemma cosineSimilarity_exact_arithmetic_example:
  "length [3, 4 :: real] = length [4, 3 :: real]
   \<and> cosineSimilarity [3, 4] [4, 3] = Inr (24 / 25)
   \<and> cosineSimilarity [4, 3] [3, 4] = Inr (24 / 25)
   \<and> cosineSimilarity [3, 4] [3, 4] = Inr 1
   \<and> cosineSimilarity [0, 0] [4, 3] = Inr 0
   \<and> (\<exists>r. cosineSimilarity [3, 4] [4, 3] = Inr r \<and> - 1 \<le> r \<and> r \<le> 1)"
  using cosineSimilarity_exact_arithmetic [of "[3, 4]" "[4, 3]"]
  by (auto simp: cosineSimilarity_def)

text \<open>
  Claim C9. For vectors of different lengths \<^verbatim>\<open>cosineSimilarity\<close> throws
  \<^verbatim>\<open>Error("Vectors must have same length")\<close>; it returns a number exactly when the two
  vectors have the same length.
\<close>

theorem cosineSimilarity_length_mismatch:
  "(length a \<noteq> length b \<longrightarrow> cosineSimilarity a b = Inl (Error ''Vectors must have same length''))
   \<and> ((\<exists>r. cosineSimilarity a b = Inr r) \<longleftrightarrow> length a = length b)"
  by (auto simp: cosineSimilarity_def Let_def split: prod.splits)

theorem cosineSimilarity_length_mismatch_witness:
  "length [1, 2 :: real] \<noteq> length [1 :: real]
   \<and> cosineSimilarity [1, 2] [1] = Inl (Error ''Vectors must have same length'')
   \<and> \<not> (\<exists>r. cosineSimilarity [1, 2] [1] = Inr r)"
  using cosineSimilarity_length_mismatch [of "[1, 2]" "[1]"] by simp


subsection \<open>Facts about retrieval\<close>















section \<open>Verification: answer generation\<close>

lemma generateAnswer_confidence_bounds:
  assumes "generateAnswer llm query docs md history = Inr r"
  shows "gen_confidence r \<le> 1"
    and "0 \<le> avgRelevanceOr1 docs \<Longrightarrow> 0 \<le> gen_confidence r"
    and "gen_confidence r = min (avgRelevanceOr1 docs * 1.2) 1"
  using assms by (auto simp: generateAnswer_def Let_def split: sum.splits)

text \<open>
  Claim C8 says that the confidence returned by answer generation lies in [0, 1] whatever
  the retrieval scores are. The code only caps the value from above: a stored chunk whose
  embedding is opposite to the query embedding is retrieved with cosine similarity \<open>-1\<close>,
  and \<^verbatim>\<open>generateAnswer\<close> then returns the confidence \<open>min (-1 * 1.2) 1 = -6/5\<close>, which is
  outside [0, 1].
\<close>

theorem generateAnswer_confidence_negative:
  "retrieveDocuments exampleEmbedding [oppositeChunk] ''query'' exampleOptions
     = Inr [scoredChunk oppositeChunk (- 1)]
   \<and> (\<exists>r. generateAnswer okLLM ''query'' [scoredChunk oppositeChunk (- 1)] ''research'' [] = Inr r
          \<and> gen_confidence r = - 6 / 5
          \<and> \<not> (0 \<le> gen_confidence r \<and> gen_confidence r \<le> 1))"
proof -
  have "findManyChunks [oppositeChunk] exampleOptions = [oppositeChunk]"
    by (simp add: findManyChunks_def whereClause_def exampleOptions_def)
  moreover have "cosineSimilarity [1, 0] [- 1, 0] = Inr (- 1)"
    by (simp add: cosineSimilarity_def)
  moreover have "stored_embedding oppositeChunk = Vec [- 1, 0]"
    by (simp add: oppositeChunk_def)
  ultimately have ret: "retrieveDocuments exampleEmbedding [oppositeChunk] ''query'' exampleOptions
     = Inr [scoredChunk oppositeChunk (- 1)]"
    by (simp add: retrieveDocuments_def exampleEmbedding_def exampleOptions_def
        sortByScoreDesc_def)
  have "avgRelevanceOr1 [scoredChunk oppositeChunk (- 1)] = - 1"
    by (simp add: avgRelevanceOr1_def scoredChunk_def)
  then have "\<exists>r. generateAnswer okLLM ''query'' [scoredChunk oppositeChunk (- 1)] ''research'' [] = Inr r
          \<and> gen_confidence r = - 6 / 5
          \<and> \<not> (0 \<le> gen_confidence r \<and> gen_confidence r \<le> 1)"
    by (simp add: generateAnswer_def okLLM_def Let_def)
  with ret show ?thesis by blast
qed


section \<open>Verification: self-evaluation\<close>

lemma checkLength_fst:
  "fst (checkLength n st) = fst st + (if 30 < n \<and> n < 500 then 0.1 else if n < 30 then - 0.1 else 0)"
  by (cases st) (simp add: checkLength_def)

lemma checkKeywords_fst:
  "fst (checkKeywords coverage st) = fst st + (if coverage > 0.6 then 0.15 else - 0.1)"
  by (cases st) (simp add: checkKeywords_def)

lemma checkDocuments_fst:
  "fst (checkDocuments docs st) = fst st +
     (if docs = [] then - 0.2 else if avgRelevance docs > 0.7 then 0.15
      else if avgRelevance docs < 0.4 then - 0.15 else 0)"
  by (cases st) (simp add: checkDocuments_def)

lemma heuristicEvaluation_score_fst:
  "ev_score (heuristicEvaluation query answer docs conf)
       = max 0 (min 1 (fst (checkDocuments docs
             (checkKeywords (keywordCoverage query answer)
                (checkLength (answerLength answer) (0.5, [], [])))) * 0.7 + conf * 0.3))"
  by (simp add: heuristicEvaluation_def Let_def case_prod_beta)

text \<open>
  Claim C6, amended. The fallback heuristic returns
  \<open>(0.5 + lengthTerm + keywordTerm + documentTerm) * 0.7 + conf * 0.3\<close>, clamped
  to [0, 1], where the length term is \<open>+0.1\<close> when the answer has strictly more than 30 and
  strictly fewer than 500 whitespace-separated pieces, \<open>-0.1\<close> when it has fewer than 30 and
  \<open>0\<close> when it has 500 or more; the keyword term is \<open>+0.15\<close> when strictly more than 60
  percent of the query keywords occur in the answer and \<open>-0.1\<close> otherwise; the document
  term is \<open>-0.2\<close> without documents, \<open>+0.15\<close> for an average score above 0.7, \<open>-0.15\<close>
  below 0.4 and \<open>0\<close> in between. When the evaluation model fails or its reply does not
  parse, \<^verbatim>\<open>evaluateAnswer\<close> returns exactly this heuristic result.
\<close>

theorem heuristicEvaluation_score:
  "\<exists>lengthTerm keywordTerm documentTerm.
     ev_score (heuristicEvaluation query answer docs conf)
       = max 0 (min 1 ((0.5 + lengthTerm + keywordTerm + documentTerm) * 0.7 + conf * 0.3))
     \<and> (30 < answerLength answer \<and> answerLength answer < 500
          \<longrightarrow> lengthTerm = 0.1)
     \<and> (answerLength answer < 30 \<longrightarrow> lengthTerm = - 0.1)
     \<and> (500 \<le> answerLength answer \<longrightarrow> lengthTerm = 0)
     \<and> (keywordCoverage query answer > 0.6 \<longrightarrow> keywordTerm = 0.15)
     \<and> (keywordCoverage query answer \<le> 0.6 \<longrightarrow> keywordTerm = - 0.1)
     \<and> (docs = [] \<longrightarrow> documentTerm = - 0.2)
     \<and> (docs \<noteq> [] \<and> avgRelevance docs > 0.7 \<longrightarrow> documentTerm = 0.15)
     \<and> (docs \<noteq> [] \<and> avgRelevance docs < 0.4 \<longrightarrow> documentTerm = - 0.15)
     \<and> (docs \<noteq> [] \<and> 0.4 \<le> avgRelevance docs \<and> avgRelevance docs \<le> 0.7 \<longrightarrow> documentTerm = 0)
     \<and> (evaluationLLM query (map content (take 3 docs)) answer conf = Inl e
          \<longrightarrow> evaluateAnswer evaluationLLM query answer docs conf
              = heuristicEvaluation query answer docs conf)"
proof -
  let ?n = "answerLength answer"
  define L :: real where "L = (if 30 < ?n \<and> ?n < 500 then 0.1 else if ?n < 30 then - 0.1 else 0)"
  define K :: real where "K = (if keywordCoverage query answer > 0.6 then 0.15 else - 0.1)"
  define D :: real where "D = (if docs = [] then - 0.2 else if avgRelevance docs > 0.7 then 0.15
            else if avgRelevance docs < 0.4 then - 0.15 else 0)"
  have "fst (checkDocuments docs
             (checkKeywords (keywordCoverage query answer)
                (checkLength ?n (0.5, [], [])))) = 0.5 + L + K + D"
    unfolding checkDocuments_fst checkKeywords_fst checkLength_fst L_def K_def D_def
    by (simp only: fst_conv)
  then have score: "ev_score (heuristicEvaluation query answer docs conf)
       = max 0 (min 1 ((0.5 + L + K + D) * 0.7 + conf * 0.3))"
    by (simp only: heuristicEvaluation_score_fst)
  have l1: "30 < ?n \<and> ?n < 500 \<longrightarrow> L = 0.1" by (simp add: L_def)
  have l2: "?n < 30 \<longrightarrow> L = - 0.1" by (simp add: L_def)
  have l3: "500 \<le> ?n \<longrightarrow> L = 0" by (simp add: L_def)
  have k1: "keywordCoverage query answer > 0.6 \<longrightarrow> K = 0.15" by (simp add: K_def)
  have k2: "keywordCoverage query answer \<le> 0.6 \<longrightarrow> K = - 0.1" by (simp add: K_def)
  have d1: "docs = [] \<longrightarrow> D = - 0.2" by (simp add: D_def)
  have d2: "docs \<noteq> [] \<and> avgRelevance docs > 0.7 \<longrightarrow> D = 0.15" by (simp add: D_def)
  have d3: "docs \<noteq> [] \<and> avgRelevance docs < 0.4 \<longrightarrow> D = - 0.15" by (simp add: D_def)
  have d4: "docs \<noteq> [] \<and> 0.4 \<le> avgRelevance docs \<and> avgRelevance docs \<le> 0.7 \<longrightarrow> D = 0"
    by (simp add: D_def)
  have fallback: "evaluationLLM query (map content (take 3 docs)) answer conf = Inl e
          \<longrightarrow> evaluateAnswer evaluationLLM query answer docs conf
              = heuristicEvaluation query answer docs conf"
    by (simp add: evaluateAnswer_def Let_def)
  from score l1 l2 l3 k1 k2 d1 d2 d3 d4 fallback show ?thesis
    by (intro exI[of _ L] exI[of _ K] exI[of _ D] conjI)
qed


lemmas string_eval =
  splitWs_def isSpace_def toLowerCase_def toLowerChar_def trim_def

lemma splitWsAux_verbose:
  "length (splitWsAux (concat (replicate n ''a '')) [] b) = Suc n"
  by (induction n arbitrary: b) (simp_all add: isSpace_def)

lemma answerLength_verbose: "answerLength verboseAnswer = 601"
  by (simp add: answerLength_def splitWs_def verboseAnswer_def splitWsAux_verbose)

lemma answerLength_short: "answerLength ''alpha bravo delta'' = 3"
  by (simp add: answerLength_def string_eval)

lemma keywordCoverage_three_of_five:
  "keywordCoverage ''alpha bravo delta gamma omega'' ''alpha bravo delta'' = 3 / 5"
  by (simp add: keywordCoverage_def queryKeywords_def string_eval)

lemma keywordCoverage_no_keywords: "keywordCoverage ''why'' answer = 0"
  by (simp add: keywordCoverage_def queryKeywords_def string_eval)

theorem heuristicEvaluation_score_witness:
  "answerLength ''alpha bravo delta'' = 3
   \<and> keywordCoverage ''alpha bravo delta gamma omega'' ''alpha bravo delta'' = 3 / 5
   \<and> ev_score (heuristicEvaluation ''alpha bravo delta gamma omega'' ''alpha bravo delta'' [] (1 / 2))
       = 11 / 50
   \<and> evaluateAnswer failingEvaluationLLM ''alpha bravo delta gamma omega'' ''alpha bravo delta'' [] (1 / 2)
       = heuristicEvaluation ''alpha bravo delta gamma omega'' ''alpha bravo delta'' [] (1 / 2)"
proof -
  have f: "failingEvaluationLLM ''alpha bravo delta gamma omega'' (map content (take 3 []))
             ''alpha bravo delta'' (1 / 2) = Inl (Error ''Could not parse evaluation response'')"
    by (simp add: failingEvaluationLLM_def)
  show ?thesis
    using heuristicEvaluation_score [where query = "''alpha bravo delta gamma omega''"
      and answer = "''alpha bravo delta''" and docs = "[]" and conf = "1 / 2"
      and evaluationLLM = failingEvaluationLLM
      and e = "Error ''Could not parse evaluation response''"]
      f answerLength_short keywordCoverage_three_of_five
    by auto
qed

text \<open>
  The claim as worded fails on the code. With three of five keywords covered the code
  subtracts 0.1 where the wording adds 0.15 (score 11/50 against 79/200), and for an answer
  of 601 pieces the code leaves the score unchanged where the wording subtracts 0.1
  (29/100 against 11/50).
\<close>

theorem heuristicEvaluation_counterexample:
  "ev_score (heuristicEvaluation ''alpha bravo delta gamma omega'' ''alpha bravo delta'' [] (1 / 2))
     = 11 / 50
   \<and> specHeuristicScore ''alpha bravo delta gamma omega'' ''alpha bravo delta'' [] (1 / 2) = 79 / 200
   \<and> answerLength verboseAnswer = 601
   \<and> ev_score (heuristicEvaluation ''why'' verboseAnswer [] (1 / 2)) = 29 / 100
   \<and> specHeuristicScore ''why'' verboseAnswer [] (1 / 2) = 11 / 50"
proof -
  have a: "ev_score (heuristicEvaluation ''alpha bravo delta gamma omega'' ''alpha bravo delta'' [] (1 / 2))
     = 11 / 50"
    unfolding heuristicEvaluation_score_fst checkDocuments_fst checkKeywords_fst checkLength_fst
      answerLength_short keywordCoverage_three_of_five
    by simp
  have b: "specHeuristicScore ''alpha bravo delta gamma omega'' ''alpha bravo delta'' [] (1 / 2) = 79 / 200"
    unfolding specHeuristicScore_def Let_def answerLength_short keywordCoverage_three_of_five
    by simp
  have c: "ev_score (heuristicEvaluation ''why'' verboseAnswer [] (1 / 2)) = 29 / 100"
    unfolding heuristicEvaluation_score_fst checkDocuments_fst checkKeywords_fst checkLength_fst
      answerLength_verbose keywordCoverage_no_keywords
    by simp
  have d: "specHeuristicScore ''why'' verboseAnswer [] (1 / 2) = 11 / 50"
    unfolding specHeuristicScore_def Let_def answerLength_verbose keywordCoverage_no_keywords
    by simp
  from a b c d answerLength_verbose show ?thesis by blast
qed


section \<open>Verification: query refinement\<close>

lemma map_update_distinct:
  assumes "distinct (map f xs)" "i < length xs"
  shows "map (\<lambda>r. if f r = f (xs ! i) then g r else r) xs = xs[i := g (xs ! i)]"
proof (rule nth_equalityI)
  show "length (map (\<lambda>r. if f r = f (xs ! i) then g r else r) xs) = length (xs[i := g (xs ! i)])"
    by simp
next
  fix j assume "j < length (map (\<lambda>r. if f r = f (xs ! i) then g r else r) xs)"
  then have j: "j < length xs" by simp
  have "f (xs ! j) = f (xs ! i) \<longleftrightarrow> j = i"
    using assms j nth_eq_iff_index_eq[of "map f xs" j i] by simp
  with j show "map (\<lambda>r. if f r = f (xs ! i) then g r else r) xs ! j = xs[i := g (xs ! i)] ! j"
    by (cases "j = i") simp_all
qed

text \<open>
  Claim C7, amended. For a refine call with attempt number at least 1 in which the store
  works and the rewrite model returns a text, the rewritten (trimmed) query is returned and
  persisted. A stored row matches the attempt (\<open>sameRefinement\<close>) when it has the same mode,
  the same original and refined query up to letter case, and the subject of the call; a
  call without subject matches rows of any subject. When no row matches, a new row with
  usage count 1 is appended; otherwise the first matching row gets its usage count
  incremented and its timestamp refreshed, and no other row changes. When the rewrite model
  fails, the original query is returned and the table is left as it was.
\<close>

theorem refineQuery_persists_on_success:
  "(attemptNumber \<noteq> 0 \<and> faults = noFaults \<and> distinct (map ref_id rows)
      \<and> refinementLLM md (case subj of None \<Rightarrow> ''general'' | Some sub \<Rightarrow> if sub = [] then ''general'' else sub)
            attemptNumber original (historicalRefinements rows md subj) = Inr result
     \<longrightarrow> (\<exists>rows'. refineQuery faults now refinementLLM rows original md subj attemptNumber
                    = (Inr (trim result), rows')
            \<and> ((\<forall>r\<in>set rows. \<not> sameRefinement original (trim result) md subj r)
                 \<longrightarrow> (\<exists>new. rows' = rows @ [new]
                        \<and> ref_originalQuery new = original \<and> ref_refinedQuery new = trim result
                        \<and> ref_mode new = md \<and> ref_subject new = subj
                        \<and> ref_usageCount new = 1 \<and> ref_improvementScore new = None
                        \<and> ref_id new \<notin> ref_id ` set rows))
            \<and> ((\<exists>r\<in>set rows. sameRefinement original (trim result) md subj r)
                 \<longrightarrow> (\<exists>i<length rows.
                        sameRefinement original (trim result) md subj (rows ! i)
                        \<and> (\<forall>j<i. \<not> sameRefinement original (trim result) md subj (rows ! j))
                        \<and> rows' = rows[i := (rows ! i)\<lparr> ref_usageCount := ref_usageCount (rows ! i) + 1,
                                                        ref_lastUsed := now \<rparr>]))))
   \<and> (attemptNumber \<noteq> 0
      \<and> refinementLLM md (case subj of None \<Rightarrow> ''general'' | Some sub \<Rightarrow> if sub = [] then ''general'' else sub)
            attemptNumber original (historicalRefinements rows md subj) = Inl e
     \<longrightarrow> refineQuery faults now refinementLLM rows original md subj attemptNumber
           = (Inr original, rows))"
proof (intro conjI impI)
  let ?sub = "case subj of None \<Rightarrow> ''general'' | Some sub \<Rightarrow> if sub = [] then ''general'' else sub"
  let ?same = "sameRefinement original (trim result) md subj"
  assume a: "attemptNumber \<noteq> 0 \<and> faults = noFaults \<and> distinct (map ref_id rows)
      \<and> refinementLLM md ?sub attemptNumber original (historicalRefinements rows md subj) = Inr result"
  define rows' where
    "rows' = storeRefinementAttempt faults now rows original (trim result) md subj"
  have ret: "refineQuery faults now refinementLLM rows original md subj attemptNumber
                    = (Inr (trim result), rows')"
    using a by (simp add: refineQuery_def noFaults_def rows'_def Let_def)
  have ins: "(\<forall>r\<in>set rows. \<not> ?same r)
                 \<longrightarrow> (\<exists>new. rows' = rows @ [new]
                        \<and> ref_originalQuery new = original \<and> ref_refinedQuery new = trim result
                        \<and> ref_mode new = md \<and> ref_subject new = subj
                        \<and> ref_usageCount new = 1 \<and> ref_improvementScore new = None
                        \<and> ref_id new \<notin> ref_id ` set rows)"
  proof
    assume none: "\<forall>r\<in>set rows. \<not> ?same r"
    then have "find ?same rows = None" by (simp add: find_None_iff)
    moreover have "freshId rows \<notin> ref_id ` set rows"
    proof -
      have "\<forall>r\<in>set rs. ref_id r < Suc (foldr max (map ref_id rs) 0)" for rs :: "RefinementRecord list"
        by (induction rs) (auto simp: less_Suc_eq_le max_def)
      from this[of rows] show ?thesis by (fastforce simp: freshId_def)
    qed
    ultimately show "\<exists>new. rows' = rows @ [new]
                        \<and> ref_originalQuery new = original \<and> ref_refinedQuery new = trim result
                        \<and> ref_mode new = md \<and> ref_subject new = subj
                        \<and> ref_usageCount new = 1 \<and> ref_improvementScore new = None
                        \<and> ref_id new \<notin> ref_id ` set rows"
      using a by (simp add: rows'_def storeRefinementAttempt_def noFaults_def)
  qed
  have upd: "(\<exists>r\<in>set rows. ?same r)
                 \<longrightarrow> (\<exists>i<length rows. ?same (rows ! i) \<and> (\<forall>j<i. \<not> ?same (rows ! j))
                        \<and> rows' = rows[i := (rows ! i)\<lparr> ref_usageCount := ref_usageCount (rows ! i) + 1,
                                                        ref_lastUsed := now \<rparr>])"
  proof
    assume "\<exists>r\<in>set rows. ?same r"
    then obtain existing where f: "find ?same rows = Some existing"
      by (cases "find ?same rows") (auto simp: find_None_iff)
    then obtain i where i: "i < length rows" "?same (rows ! i)" "existing = rows ! i"
      "\<forall>j<i. \<not> ?same (rows ! j)"
      by (auto simp: find_Some_iff)
    have "rows' = map (\<lambda>r. if ref_id r = ref_id (rows ! i) then bumpUsage now r else r) rows"
      using a f i(3) by (simp add: rows'_def storeRefinementAttempt_def noFaults_def)
    also have "\<dots> = rows[i := bumpUsage now (rows ! i)]"
      using a i(1) by (intro map_update_distinct) auto
    finally have "rows' = rows[i := (rows ! i)\<lparr> ref_usageCount := ref_usageCount (rows ! i) + 1,
                                                        ref_lastUsed := now \<rparr>]"
      by (simp add: bumpUsage_def)
    with i show "\<exists>i<length rows. ?same (rows ! i) \<and> (\<forall>j<i. \<not> ?same (rows ! j))
                        \<and> rows' = rows[i := (rows ! i)\<lparr> ref_usageCount := ref_usageCount (rows ! i) + 1,
                                                        ref_lastUsed := now \<rparr>]"
      by blast
  qed
  from ret ins upd
  show "\<exists>rows'. refineQuery faults now refinementLLM rows original md subj attemptNumber
                    = (Inr (trim result), rows')
            \<and> ((\<forall>r\<in>set rows. \<not> ?same r)
                 \<longrightarrow> (\<exists>new. rows' = rows @ [new]
                        \<and> ref_originalQuery new = original \<and> ref_refinedQuery new = trim result
                        \<and> ref_mode new = md \<and> ref_subject new = subj
                        \<and> ref_usageCount new = 1 \<and> ref_improvementScore new = None
                        \<and> ref_id new \<notin> ref_id ` set rows))
            \<and> ((\<exists>r\<in>set rows. ?same r)
                 \<longrightarrow> (\<exists>i<length rows. ?same (rows ! i) \<and> (\<forall>j<i. \<not> ?same (rows ! j))
                        \<and> rows' = rows[i := (rows ! i)\<lparr> ref_usageCount := ref_usageCount (rows ! i) + 1,
                                                        ref_lastUsed := now \<rparr>]))"
    by blast
next
  assume "attemptNumber \<noteq> 0
      \<and> refinementLLM md (case subj of None \<Rightarrow> ''general'' | Some sub \<Rightarrow> if sub = [] then ''general'' else sub)
            attemptNumber original (historicalRefinements rows md subj) = Inl e"
  then show "refineQuery faults now refinementLLM rows original md subj attemptNumber
           = (Inr original, rows)"
    by (simp add: refineQuery_def)
qed


lemma trim_expanded: "trim '' solve the linear equation '' = ''solve the linear equation''"
  by (simp add: trim_def isSpace_def)

lemma sameRefinement_without_subject:
  "sameRefinement ''solve eq'' ''solve the linear equation'' ''math_solver'' None physicsRow"
  by (simp add: sameRefinement_def physicsRow_def)

lemma sameRefinement_upper_case:
  "sameRefinement ''SOLVE EQ'' ''solve the linear equation'' ''math_solver'' (Some ''physics'')
     physicsRow"
  by (simp add: sameRefinement_def physicsRow_def toLowerCase_def toLowerChar_def)

theorem refineQuery_persists_on_success_witness:
  "(1::nat) \<noteq> 0 \<and> distinct (map ref_id ([] :: RefinementRecord list))
   \<and> expandingRefinementLLM ''math_solver'' ''math'' 1 ''solve eq''
         (historicalRefinements [] ''math_solver'' (Some ''math'')) = Inr '' solve the linear equation ''
   \<and> (\<exists>new. refineQuery noFaults 7 expandingRefinementLLM [] ''solve eq'' ''math_solver'' (Some ''math'') 1
                 = (Inr ''solve the linear equation'', [new])
              \<and> ref_originalQuery new = ''solve eq''
              \<and> ref_refinedQuery new = ''solve the linear equation''
              \<and> ref_usageCount new = 1)
   \<and> distinct (map ref_id [physicsRow])
   \<and> refineQuery noFaults 7 expandingRefinementLLM [physicsRow] ''solve eq'' ''math_solver''
         (Some ''physics'') 1
       = (Inr ''solve the linear equation'',
          [physicsRow\<lparr> ref_usageCount := 2, ref_lastUsed := 7 \<rparr>])"
proof -
  have llm: "expandingRefinementLLM ''math_solver''
      (case Some ''math'' of None \<Rightarrow> ''general'' | Some sub \<Rightarrow> if sub = [] then ''general'' else sub)
      1 ''solve eq'' (historicalRefinements [] ''math_solver'' (Some ''math''))
      = Inr '' solve the linear equation ''"
    by (simp add: expandingRefinementLLM_def)
  from refineQuery_persists_on_success [where attemptNumber = 1 and faults = noFaults
      and rows = "[]" and refinementLLM = expandingRefinementLLM and md = "''math_solver''"
      and subj = "Some ''math''" and original = "''solve eq''"
      and result = "'' solve the linear equation ''" and now = 7] llm
  have ins: "\<exists>new. refineQuery noFaults 7 expandingRefinementLLM [] ''solve eq'' ''math_solver'' (Some ''math'') 1
                 = (Inr ''solve the linear equation'', [new])
              \<and> ref_originalQuery new = ''solve eq''
              \<and> ref_refinedQuery new = ''solve the linear equation''
              \<and> ref_usageCount new = 1"
    by (auto simp: trim_expanded)
  have llm2: "expandingRefinementLLM ''math_solver''
      (case Some ''physics'' of None \<Rightarrow> ''general'' | Some sub \<Rightarrow> if sub = [] then ''general'' else sub)
      1 ''solve eq'' (historicalRefinements [physicsRow] ''math_solver'' (Some ''physics''))
      = Inr '' solve the linear equation ''"
    by (simp add: expandingRefinementLLM_def)
  have same: "sameRefinement ''solve eq'' ''solve the linear equation'' ''math_solver''
                (Some ''physics'') physicsRow"
    by (simp add: sameRefinement_def physicsRow_def)
  from refineQuery_persists_on_success [where attemptNumber = 1 and faults = noFaults
      and rows = "[physicsRow]" and refinementLLM = expandingRefinementLLM
      and md = "''math_solver''" and subj = "Some ''physics''" and original = "''solve eq''"
      and result = "'' solve the linear equation ''" and now = 7] llm2 same
  have upd: "refineQuery noFaults 7 expandingRefinementLLM [physicsRow] ''solve eq'' ''math_solver''
         (Some ''physics'') 1
       = (Inr ''solve the linear equation'',
          [physicsRow\<lparr> ref_usageCount := 2, ref_lastUsed := 7 \<rparr>])"
    by (auto simp: trim_expanded physicsRow_def)
  from ins upd llm show ?thesis by simp
qed

text \<open>
  The claim as worded fails on the code in three ways. A refine call with attempt number 1
  whose rewrite model fails returns the original query and leaves the empty table empty,
  so the attempt is neither inserted nor counted. A call without subject counts the
  attempt on a stored row of subject physics and inserts nothing. A call whose original
  query differs from the stored one in letter case only counts the attempt on that row.
\<close>

theorem refineQuery_failed_rewrite_counterexample:
  "refineQuery noFaults 7 failingRefinementLLM [] ''solve eq'' ''math_solver'' (Some ''math'') 1
     = (Inr ''solve eq'', [])
   \<and> ref_subject physicsRow = Some ''physics''
   \<and> refineQuery noFaults 7 expandingRefinementLLM [physicsRow] ''solve eq'' ''math_solver'' None 1
       = (Inr ''solve the linear equation'',
          [physicsRow\<lparr> ref_usageCount := 2, ref_lastUsed := 7 \<rparr>])
   \<and> ref_originalQuery physicsRow = ''solve eq''
   \<and> refineQuery noFaults 7 expandingRefinementLLM [physicsRow] ''SOLVE EQ'' ''math_solver''
         (Some ''physics'') 1
       = (Inr ''solve the linear equation'',
          [physicsRow\<lparr> ref_usageCount := 2, ref_lastUsed := 7 \<rparr>])"
proof -
  have a: "refineQuery noFaults 7 failingRefinementLLM [] ''solve eq'' ''math_solver'' (Some ''math'') 1
     = (Inr ''solve eq'', [])"
    by (simp add: refineQuery_def noFaults_def failingRefinementLLM_def)
  have b: "refineQuery noFaults 7 expandingRefinementLLM [physicsRow] ''solve eq'' ''math_solver'' None 1
       = (Inr ''solve the linear equation'',
          [physicsRow\<lparr> ref_usageCount := 2, ref_lastUsed := 7 \<rparr>])"
    using sameRefinement_without_subject
    by (simp add: refineQuery_def noFaults_def expandingRefinementLLM_def trim_expanded
        storeRefinementAttempt_def bumpUsage_def Let_def)
       (simp add: physicsRow_def)
  have c: "refineQuery noFaults 7 expandingRefinementLLM [physicsRow] ''SOLVE EQ'' ''math_solver''
         (Some ''physics'') 1
       = (Inr ''solve the linear equation'',
          [physicsRow\<lparr> ref_usageCount := 2, ref_lastUsed := 7 \<rparr>])"
    using sameRefinement_upper_case
    by (simp add: refineQuery_def noFaults_def expandingRefinementLLM_def trim_expanded
        storeRefinementAttempt_def bumpUsage_def Let_def)
       (simp add: physicsRow_def)
  from a b c show ?thesis by (simp add: physicsRow_def)
qed


section \<open>Verification: workflow\<close>

subsection \<open>Facts about the nodes\<close>

lemma selfEvaluationNode_keeps:
  "retrievedDocuments (snd (selfEvaluationNode svc ws)) = retrievedDocuments (snd ws)"
  "generatedAnswer (snd (selfEvaluationNode svc ws)) = generatedAnswer (snd ws)"
  "error (snd (selfEvaluationNode svc ws)) = error (snd ws)"
  by (cases ws; auto simp: selfEvaluationNode_def Let_def split: option.splits)+

lemma selfEvaluationNode_missing:
  assumes "answerMissing (snd ws)"
  shows "needsRefinement (snd (selfEvaluationNode svc ws))"
    and "evaluationScore (snd (selfEvaluationNode svc ws)) = Some 0"
  using assms by (cases ws; auto simp: selfEvaluationNode_def answerMissing_def)+

lemma selfEvaluationNode_present:
  assumes "\<not> answerMissing (snd ws)"
  shows "\<exists>sc. evaluationScore (snd (selfEvaluationNode svc ws)) = Some sc
           \<and> (needsRefinement (snd (selfEvaluationNode svc ws))
                \<longleftrightarrow> sc < 0.7 \<and> refinementAttempts (snd ws) < 3 \<and> retrievedDocuments (snd ws) \<noteq> [])"
  using assms
  by (cases ws) (auto simp: selfEvaluationNode_def answerMissing_def Let_def split: option.splits)

text \<open>
  Claim C1, amended. After the Evaluate step the workflow goes back to Refine exactly when
  the attempt counter is below 3 and either the generated answer is missing or empty, or
  the evaluation score is below 0.7 and at least one document was retrieved; in every
  other case it goes to Done. (\<open>ws\<close> is the state Evaluate starts from.)
\<close>

theorem evaluate_transition:
  "shouldRefine (snd (selfEvaluationNode svc ws)) =
     (if refinementAttempts (snd ws) < 3
         \<and> (answerMissing (snd ws)
              \<or> (\<exists>sc. evaluationScore (snd (selfEvaluationNode svc ws)) = Some sc \<and> sc < 0.7
                      \<and> retrievedDocuments (snd ws) \<noteq> []))
      then ''refine'' else ''end'')"
proof (cases "answerMissing (snd ws)")
  case True
  from selfEvaluationNode_missing[OF True, of svc] show ?thesis
    using True by (simp add: shouldRefine_def selfEvaluationNode_attempts)
next
  case False
  from selfEvaluationNode_present[OF False, of svc] obtain sc where
    "evaluationScore (snd (selfEvaluationNode svc ws)) = Some sc"
    "needsRefinement (snd (selfEvaluationNode svc ws))
       \<longleftrightarrow> sc < 0.7 \<and> refinementAttempts (snd ws) < 3 \<and> retrievedDocuments (snd ws) \<noteq> []"
    by blast
  then show ?thesis
    using False by (auto simp: shouldRefine_def selfEvaluationNode_attempts)
qed


subsection \<open>Facts about the loop\<close>

lemma runGraph_unfold:
  "runGraph svc ws =
     (if shouldRefine (snd (cycle svc ws)) = ''refine''
      then runGraph svc (cycle svc ws) else cycle svc ws)"
  by (rule runGraph.simps)

lemma shouldRefine_attempts:
  "shouldRefine state = ''refine'' \<Longrightarrow> refinementAttempts state < 3"
  by (simp add: shouldRefine_def split: if_splits)

lemma runGraph_attempts_bounds:
  "refinementAttempts (snd ws) < 3 \<Longrightarrow>
   refinementAttempts (snd ws) < refinementAttempts (snd (runGraph svc ws))
   \<and> refinementAttempts (snd (runGraph svc ws)) \<le> 3"
proof (induction svc ws rule: runGraph.induct)
  case (1 svc ws)
  show ?case
  proof (cases "shouldRefine (snd (cycle svc ws)) = ''refine''")
    case True
    then have lt: "refinementAttempts (snd (cycle svc ws)) < 3" by (rule shouldRefine_attempts)
    from "1.IH"[OF True lt] have
      "refinementAttempts (snd (cycle svc ws)) < refinementAttempts (snd (runGraph svc (cycle svc ws)))"
      "refinementAttempts (snd (runGraph svc (cycle svc ws))) \<le> 3"
      by simp_all
    moreover have "runGraph svc ws = runGraph svc (cycle svc ws)"
      using True by (subst runGraph_unfold) simp
    ultimately show ?thesis by (simp add: cycle_attempts)
  next
    case False
    then have "runGraph svc ws = cycle svc ws" by (subst runGraph_unfold) simp
    with "1.prems" show ?thesis by (simp add: cycle_attempts)
  qed
qed

lemma runGraph_is_cycle: "\<exists>ws'. runGraph svc ws = cycle svc ws'"
proof (induction svc ws rule: runGraph.induct)
  case (1 svc ws)
  show ?case
  proof (cases "shouldRefine (snd (cycle svc ws)) = ''refine''")
    case True
    from "1.IH"[OF True] obtain ws' where "runGraph svc (cycle svc ws) = cycle svc ws'" by blast
    moreover have "runGraph svc ws = runGraph svc (cycle svc ws)"
      using True by (subst runGraph_unfold) simp
    ultimately have "runGraph svc ws = cycle svc ws'" by simp
    then show ?thesis by (rule exI)
  next
    case False
    then have "runGraph svc ws = cycle svc ws" by (subst runGraph_unfold) simp
    then show ?thesis by blast
  qed
qed

lemma cycle_exit:
  assumes "(\<exists>sc. evaluationScore (snd (cycle svc ws)) = Some sc \<and> sc \<ge> 0.7)
           \<or> refinementAttempts (snd (cycle svc ws)) \<ge> 3
           \<or> (retrievedDocuments (snd (cycle svc ws)) = [] \<and> \<not> answerMissing (snd (cycle svc ws)))"
  shows "shouldRefine (snd (cycle svc ws)) = ''end''"
proof -
  let ?x = "answerGenerationNode svc (documentRetrievalNode svc (queryRefinementNode svc ws))"
  have c: "cycle svc ws = selfEvaluationNode svc ?x" by (simp add: cycle_def)
  have am: "answerMissing (snd (cycle svc ws)) = answerMissing (snd ?x)"
    by (simp add: c answerMissing_def selfEvaluationNode_keeps)
  show ?thesis
  proof (cases "answerMissing (snd ?x)")
    case True
    from selfEvaluationNode_missing(2)[OF True, of svc]
    have "evaluationScore (snd (cycle svc ws)) = Some 0" by (simp add: c)
    with assms am True have "refinementAttempts (snd (cycle svc ws)) \<ge> 3" by auto
    then show ?thesis by (simp add: shouldRefine_def)
  next
    case False
    from selfEvaluationNode_present[OF False, of svc] obtain sc where
      sc: "evaluationScore (snd (cycle svc ws)) = Some sc"
      and n: "needsRefinement (snd (cycle svc ws))
         \<longleftrightarrow> sc < 0.7 \<and> refinementAttempts (snd ?x) < 3 \<and> retrievedDocuments (snd ?x) \<noteq> []"
      by (auto simp: c)
    have "retrievedDocuments (snd (cycle svc ws)) = retrievedDocuments (snd ?x)"
      by (simp add: c selfEvaluationNode_keeps)
    with assms sc n show ?thesis
      by (auto simp: shouldRefine_def)
  qed
qed


subsection \<open>Runs with concrete services\<close>

lemma answerGenerationNode_keeps_docs:
  "retrievedDocuments (snd (answerGenerationNode svc ws)) = retrievedDocuments (snd ws)"
  by (cases ws) (auto simp: answerGenerationNode_def split: sum.splits)

lemma retrieveDocuments_empty_store:
  "retrieveDocuments exampleEmbedding [] q opts = Inr []"
  by (simp add: retrieveDocuments_def exampleEmbedding_def findManyChunks_def
      sortByScoreDesc_def Let_def)

lemma documentRetrievalNode_empty_store:
  assumes "svc_generateEmbedding svc = exampleEmbedding" "svc_chunks svc = []"
  shows "retrievedDocuments (snd (documentRetrievalNode svc ws)) = []"
  using assms
  by (cases ws) (simp add: documentRetrievalNode_def retrieveDocuments_empty_store Let_def)

lemma cycle_empty_store:
  assumes "svc_generateEmbedding svc = exampleEmbedding" "svc_chunks svc = []"
  shows "retrievedDocuments (snd (cycle svc ws)) = []"
  by (simp add: cycle_def selfEvaluationNode_keeps answerGenerationNode_keeps_docs
      documentRetrievalNode_empty_store[OF assms])

lemma answerGenerationNode_blank:
  assumes "svc_answerLLM svc = blankLLM"
  shows "generatedAnswer (snd (answerGenerationNode svc ws)) = Some []"
  using assms
  by (cases ws)
     (simp add: answerGenerationNode_def generateAnswer_def blankLLM_def Let_def trim_def
        isSpace_def)

lemma answerGenerationNode_ok:
  assumes "svc_answerLLM svc = okLLM"
  shows "generatedAnswer (snd (answerGenerationNode svc ws)) = Some ''Four.''"
  using assms
  by (cases ws)
     (simp add: answerGenerationNode_def generateAnswer_def okLLM_def Let_def trim_def
        isSpace_def)

lemma answerGenerationNode_failing:
  assumes "\<forall>q d x h. \<exists>e. svc_answerLLM svc q d x h = Inl e"
  shows "generatedAnswer (snd (answerGenerationNode svc ws)) = Some generationApology
         \<and> \<not> noError (snd (answerGenerationNode svc ws))"
proof -
  obtain w state where ws: "ws = (w, state)" by (cases ws)
  from assms obtain e where
    "svc_answerLLM svc (queryToUse state) (retrievedDocuments state) (mode state)
       (drop (length (messages state) - 6) (messages state)) = Inl e"
    by blast
  then show ?thesis
    by (simp add: ws answerGenerationNode_def generateAnswer_def Let_def noError_def)
qed

lemma blank_cycle:
  "retrievedDocuments (snd (cycle blankServices ws)) = []"
  "answerMissing (snd (cycle blankServices ws))"
  "needsRefinement (snd (cycle blankServices ws))"
  "evaluationScore (snd (cycle blankServices ws)) = Some 0"
proof -
  let ?x = "answerGenerationNode blankServices
              (documentRetrievalNode blankServices (queryRefinementNode blankServices ws))"
  have m: "answerMissing (snd ?x)"
    by (simp add: answerMissing_def answerGenerationNode_blank blankServices_def plainServices_def)
  show "retrievedDocuments (snd (cycle blankServices ws)) = []"
    by (rule cycle_empty_store) (simp_all add: blankServices_def plainServices_def)
  show "answerMissing (snd (cycle blankServices ws))"
    using m by (simp add: cycle_def answerMissing_def selfEvaluationNode_keeps)
  show "needsRefinement (snd (cycle blankServices ws))"
    unfolding cycle_def by (rule selfEvaluationNode_missing(1)[OF m])
  show "evaluationScore (snd (cycle blankServices ws)) = Some 0"
    unfolding cycle_def by (rule selfEvaluationNode_missing(2)[OF m])
qed

lemma blank_run:
  "refinementAttempts (snd ws) < 3 \<Longrightarrow>
   refinementAttempts (snd (runGraph blankServices ws)) = 3"
proof (induction blankServices ws rule: runGraph.induct)
  case (1 ws)
  show ?case
  proof (cases "refinementAttempts (snd ws) < 2")
    case True
    then have r: "shouldRefine (snd (cycle blankServices ws)) = ''refine''"
      by (simp add: shouldRefine_def blank_cycle cycle_attempts)
    have "refinementAttempts (snd (cycle blankServices ws)) < 3"
      using True by (simp add: cycle_attempts)
    from "1.hyps"[OF r this] r show ?thesis
      by (subst runGraph_unfold) simp
  next
    case False
    with "1.prems" have two: "refinementAttempts (snd ws) = 2" by simp
    then have "shouldRefine (snd (cycle blankServices ws)) = ''end''"
      by (simp add: shouldRefine_def cycle_attempts)
    then have "runGraph blankServices ws = cycle blankServices ws"
      by (subst runGraph_unfold) simp
    with two show ?thesis by (simp add: cycle_attempts)
  qed
qed

lemma initial_attempts:
  "refinementAttempts (createInitialState now query uid urole m cid options) = 0"
  by (simp add: createInitialState_def)


theorem evaluate_transition_witness:
  "refinementAttempts (snd (emptyWorld, scenarioState)) = 1
   \<and> retrievedDocuments (snd (emptyWorld, scenarioState)) \<noteq> []
   \<and> evaluationScore (snd (selfEvaluationNode scenarioServices (emptyWorld, scenarioState)))
       = Some (1 / 2)
   \<and> shouldRefine (snd (selfEvaluationNode scenarioServices (emptyWorld, scenarioState)))
       = ''refine''"
proof -
  have a: "refinementAttempts (snd (emptyWorld, scenarioState)) = 1"
    and d: "retrievedDocuments (snd (emptyWorld, scenarioState)) \<noteq> []"
    and m: "\<not> answerMissing (snd (emptyWorld, scenarioState))"
    by (simp_all add: scenarioState_def answerMissing_def)
  have e: "evaluateAnswer halfScoreEvaluationLLM (originalQuery scenarioState) ''Four.''
             [scoredChunk bestChunk (9 / 10)] 1
           = \<lparr> ev_score = 1 / 2, ev_feedback = ''Partly correct'', ev_strengths = [],
               ev_improvements = [''Explain the steps''] \<rparr>"
    by (simp add: evaluateAnswer_def halfScoreEvaluationLLM_def Let_def avgRelevanceOr1_def
        scoredChunk_def)
  have sc: "evaluationScore (snd (selfEvaluationNode scenarioServices (emptyWorld, scenarioState)))
       = Some (1 / 2)"
    using e
    by (simp add: selfEvaluationNode_def scenarioState_def scenarioServices_def Let_def
        exampleInitialState_def createInitialState_def)
  have "\<exists>x. evaluationScore (snd (selfEvaluationNode scenarioServices (emptyWorld, scenarioState)))
              = Some x \<and> x < 0.7 \<and> retrievedDocuments (snd (emptyWorld, scenarioState)) \<noteq> []"
    using sc d by (intro exI[of _ "1 / 2"]) simp
  with a have "refinementAttempts (snd (emptyWorld, scenarioState)) < 3
      \<and> (answerMissing (snd (emptyWorld, scenarioState))
           \<or> (\<exists>x. evaluationScore (snd (selfEvaluationNode scenarioServices (emptyWorld, scenarioState)))
                   = Some x \<and> x < 0.7 \<and> retrievedDocuments (snd (emptyWorld, scenarioState)) \<noteq> []))"
    by simp
  then have "shouldRefine (snd (selfEvaluationNode scenarioServices (emptyWorld, scenarioState)))
       = ''refine''"
    by (simp only: evaluate_transition [of scenarioServices "(emptyWorld, scenarioState)"]
        if_True simp_thms)
  with a d sc show ?thesis by simp
qed

text \<open>
  The claim as worded fails on the code: with an empty chunk table and an answer model that
  returns only whitespace, the first pass retrieves no document, Evaluate records the score
  0, and the workflow still goes back to Refine.
\<close>

theorem evaluate_transition_counterexample:
  "retrievedDocuments (snd (answerGenerationNode blankServices
       (documentRetrievalNode blankServices
          (queryRefinementNode blankServices (emptyWorld, exampleInitialState))))) = []
   \<and> evaluationScore (snd (selfEvaluationNode blankServices (answerGenerationNode blankServices
       (documentRetrievalNode blankServices
          (queryRefinementNode blankServices (emptyWorld, exampleInitialState)))))) = Some 0
   \<and> shouldRefine (snd (selfEvaluationNode blankServices (answerGenerationNode blankServices
       (documentRetrievalNode blankServices
          (queryRefinementNode blankServices (emptyWorld, exampleInitialState)))))) = ''refine''"
proof -
  let ?x = "answerGenerationNode blankServices
       (documentRetrievalNode blankServices
          (queryRefinementNode blankServices (emptyWorld, exampleInitialState)))"
  have c: "selfEvaluationNode blankServices ?x = cycle blankServices (emptyWorld, exampleInitialState)"
    by (simp add: cycle_def)
  have "retrievedDocuments (snd ?x) = []"
    using blank_cycle(1)[of "(emptyWorld, exampleInitialState)"]
    by (simp add: cycle_def selfEvaluationNode_keeps)
  moreover have "refinementAttempts (snd (cycle blankServices (emptyWorld, exampleInitialState))) = 1"
    by (simp add: cycle_attempts exampleInitialState_def initial_attempts)
  ultimately show ?thesis
    unfolding c by (simp add: blank_cycle shouldRefine_def)
qed

text \<open>
  Claim C2, amended. No node decreases the attempt counter; a run from the initial state
  terminates (\<open>runGraph\<close> is a total function, by the measure \<open>3 - refinementAttempts\<close>) with
  a final attempt count between 1 and 3; and the loop exits after a pass as soon as the
  evaluation score is at least 0.7, or the attempt counter has reached 3, or no document
  was retrieved and the generated answer is not empty.
\<close>

theorem refinement_loop_bounded:
  "refinementAttempts (snd ws) \<le> refinementAttempts (snd (queryRefinementNode svc ws))
   \<and> refinementAttempts (snd ws) \<le> refinementAttempts (snd (documentRetrievalNode svc ws))
   \<and> refinementAttempts (snd ws) \<le> refinementAttempts (snd (answerGenerationNode svc ws))
   \<and> refinementAttempts (snd ws) \<le> refinementAttempts (snd (selfEvaluationNode svc ws))
   \<and> 1 \<le> refinementAttempts
           (snd (runGraph svc (w, createInitialState now query uid urole m cid options)))
   \<and> refinementAttempts
           (snd (runGraph svc (w, createInitialState now query uid urole m cid options))) \<le> 3
   \<and> ((\<exists>sc. evaluationScore (snd (cycle svc ws)) = Some sc \<and> sc \<ge> 0.7)
         \<or> refinementAttempts (snd (cycle svc ws)) \<ge> 3
         \<or> (retrievedDocuments (snd (cycle svc ws)) = [] \<and> \<not> answerMissing (snd (cycle svc ws)))
       \<longrightarrow> runGraph svc ws = cycle svc ws)"
proof -
  let ?init = "createInitialState now query uid urole m cid options"
  have "refinementAttempts (snd (w, ?init)) < 3" by (simp add: initial_attempts)
  from runGraph_attempts_bounds[OF this, of svc]
  have run: "1 \<le> refinementAttempts (snd (runGraph svc (w, ?init)))"
    "refinementAttempts (snd (runGraph svc (w, ?init))) \<le> 3"
    by simp_all
  have ex: "(\<exists>sc. evaluationScore (snd (cycle svc ws)) = Some sc \<and> sc \<ge> 0.7)
         \<or> refinementAttempts (snd (cycle svc ws)) \<ge> 3
         \<or> (retrievedDocuments (snd (cycle svc ws)) = [] \<and> \<not> answerMissing (snd (cycle svc ws)))
       \<longrightarrow> runGraph svc ws = cycle svc ws"
  proof
    assume "(\<exists>sc. evaluationScore (snd (cycle svc ws)) = Some sc \<and> sc \<ge> 0.7)
         \<or> refinementAttempts (snd (cycle svc ws)) \<ge> 3
         \<or> (retrievedDocuments (snd (cycle svc ws)) = [] \<and> \<not> answerMissing (snd (cycle svc ws)))"
    then have "shouldRefine (snd (cycle svc ws)) = ''end''" by (rule cycle_exit)
    then show "runGraph svc ws = cycle svc ws" by (subst runGraph_unfold) simp
  qed
  from run ex show ?thesis
    by (simp add: queryRefinementNode_attempts documentRetrievalNode_attempts
        answerGenerationNode_attempts selfEvaluationNode_attempts)
qed

theorem refinement_loop_bounded_witness:
  "retrievedDocuments (snd (cycle plainServices (emptyWorld, exampleInitialState))) = []
   \<and> generatedAnswer (snd (cycle plainServices (emptyWorld, exampleInitialState))) = Some ''Four.''
   \<and> runGraph plainServices (emptyWorld, exampleInitialState)
       = cycle plainServices (emptyWorld, exampleInitialState)
   \<and> refinementAttempts (snd (runGraph plainServices (emptyWorld, exampleInitialState))) = 1"
proof -
  let ?ws = "(emptyWorld, exampleInitialState)"
  have d: "retrievedDocuments (snd (cycle plainServices ?ws)) = []"
    by (rule cycle_empty_store) (simp_all add: plainServices_def)
  have g: "generatedAnswer (snd (cycle plainServices ?ws)) = Some ''Four.''"
    by (simp add: cycle_def selfEvaluationNode_keeps answerGenerationNode_ok plainServices_def)
  then have m: "\<not> answerMissing (snd (cycle plainServices ?ws))"
    by (simp add: answerMissing_def)
  from refinement_loop_bounded [of ?ws plainServices] d m
  have r: "runGraph plainServices ?ws = cycle plainServices ?ws" by blast
  have "refinementAttempts (snd (cycle plainServices ?ws)) = 1"
    by (simp add: cycle_attempts exampleInitialState_def initial_attempts)
  with d g r show ?thesis by simp
qed

text \<open>
  The claim as worded fails on the code: in the run below the first pass retrieves no
  document, yet the loop does not exit; it continues until the attempt counter is 3.
\<close>

theorem refinement_loop_counterexample:
  "retrievedDocuments (snd (cycle blankServices (emptyWorld, exampleInitialState))) = []
   \<and> refinementAttempts (snd (cycle blankServices (emptyWorld, exampleInitialState))) = 1
   \<and> shouldRefine (snd (cycle blankServices (emptyWorld, exampleInitialState))) = ''refine''
   \<and> retrievedDocuments (snd (runGraph blankServices (emptyWorld, exampleInitialState))) = []
   \<and> refinementAttempts (snd (runGraph blankServices (emptyWorld, exampleInitialState))) = 3"
proof -
  let ?ws = "(emptyWorld, exampleInitialState)"
  have a: "refinementAttempts (snd (cycle blankServices ?ws)) = 1"
    by (simp add: cycle_attempts exampleInitialState_def initial_attempts)
  then have s: "shouldRefine (snd (cycle blankServices ?ws)) = ''refine''"
    by (simp add: shouldRefine_def blank_cycle)
  obtain ws' where "runGraph blankServices ?ws = cycle blankServices ws'"
    using runGraph_is_cycle by blast
  then have d: "retrievedDocuments (snd (runGraph blankServices ?ws)) = []"
    by (simp add: blank_cycle)
  have "refinementAttempts (snd (runGraph blankServices ?ws)) = 3"
    by (rule blank_run) (simp add: exampleInitialState_def initial_attempts)
  with a s d show ?thesis by (simp add: blank_cycle)
qed

lemma generateAnswer_error_message:
  "generateAnswer llm q docs x h = Inl e \<Longrightarrow> message e \<noteq> []"
  by (auto simp: generateAnswer_def Let_def split: sum.splits)

lemma answerGenerationNode_failed:
  assumes "generationCall svc ws = Inl e"
  shows "generatedAnswer (snd (answerGenerationNode svc ws)) = Some generationApology"
    and "\<not> noError (snd (answerGenerationNode svc ws))"
  using assms generateAnswer_error_message[of "svc_answerLLM svc" "queryToUse (snd ws)"
      "retrievedDocuments (snd ws)" "mode (snd ws)" "messages (snd ws)" e]
  by (cases ws; simp add: generationCall_def answerGenerationNode_def noError_def)+

lemma answerGenerationNode_succeeded:
  assumes "generationCall svc ws = Inr res"
  shows "generatedAnswer (snd (answerGenerationNode svc ws)) = Some (gen_answer res)"
    and "noError (snd (answerGenerationNode svc ws)) = noError (snd ws)"
  using assms
  by (cases ws; simp add: generationCall_def answerGenerationNode_def noError_def)+

lemma selfEvaluationNode_noError:
  "noError (snd (selfEvaluationNode svc ws)) = noError (snd ws)"
  by (simp add: noError_def selfEvaluationNode_keeps)

text \<open>
  Claim C3, amended. \<^verbatim>\<open>executeRAGWorkflow\<close> always returns a result record and never
  throws. When an exception reaches its \<^verbatim>\<open>catch\<close> block, the record has
  \<^verbatim>\<open>success = false\<close>, the apology answer and the message of the exception. Otherwise the
  run ends with a last pass through the four nodes: when answer generation fails in that
  pass, the record has \<^verbatim>\<open>success = false\<close> and the apology answer of the generation node;
  when it succeeds, the record carries the generated answer, and \<^verbatim>\<open>success\<close> is false
  exactly when an earlier failure (a retrieval failure, or a generation failure in an
  earlier pass) has left a non-empty error message in the state.
\<close>

theorem executeRAGWorkflow_result:
  "\<exists>r. snd (executeRAGWorkflow svc w query uid urole m cid options) = Inr r
      \<and> (\<forall>e. svc_graphFault svc = Some e \<longrightarrow>
             wr_success r = False \<and> wr_answer r = Some workflowApology
             \<and> wr_error r = Some (message e))
      \<and> (svc_graphFault svc = None \<longrightarrow>
            (\<exists>ws'. runGraph svc (w, createInitialState (svc_now svc) query uid urole m cid options)
                     = cycle svc ws'
               \<and> (\<forall>e. generationCall svc (documentRetrievalNode svc (queryRefinementNode svc ws'))
                         = Inl e \<longrightarrow>
                       wr_success r = False \<and> wr_answer r = Some generationApology)
               \<and> (\<forall>res. generationCall svc (documentRetrievalNode svc (queryRefinementNode svc ws'))
                         = Inr res \<longrightarrow>
                       wr_answer r = Some (gen_answer res)
                       \<and> wr_success r
                           = noError (snd (documentRetrievalNode svc (queryRefinementNode svc ws'))))))
      \<and> (svc_graphFault svc = None \<and> (\<forall>q d x h. \<exists>e. svc_answerLLM svc q d x h = Inl e) \<longrightarrow>
             wr_success r = False \<and> wr_answer r = Some generationApology)"
proof (cases "svc_graphFault svc")
  case None
  let ?init = "createInitialState (svc_now svc) query uid urole m cid options"
  obtain w' final where run: "runGraph svc (w, ?init) = (w', final)"
    by (cases "runGraph svc (w, ?init)")
  obtain ws' where c: "runGraph svc (w, ?init) = cycle svc ws'"
    using runGraph_is_cycle by blast
  let ?x = "documentRetrievalNode svc (queryRefinementNode svc ws')"
  have final: "final = snd (selfEvaluationNode svc (answerGenerationNode svc ?x))"
    using run c by (simp add: cycle_def)
  have failed: "\<forall>e. generationCall svc ?x = Inl e \<longrightarrow>
                  \<not> noError final \<and> generatedAnswer final = Some generationApology"
    using answerGenerationNode_failed[of svc ?x]
    by (simp add: final selfEvaluationNode_noError selfEvaluationNode_keeps)
  have succeeded: "\<forall>res. generationCall svc ?x = Inr res \<longrightarrow>
                  generatedAnswer final = Some (gen_answer res) \<and> noError final = noError (snd ?x)"
    using answerGenerationNode_succeeded[of svc ?x]
    by (simp add: final selfEvaluationNode_noError selfEvaluationNode_keeps)
  have always: "(\<forall>q d x h. \<exists>e. svc_answerLLM svc q d x h = Inl e) \<longrightarrow>
               \<not> noError final \<and> generatedAnswer final = Some generationApology"
  proof
    assume f: "\<forall>q d x h. \<exists>e. svc_answerLLM svc q d x h = Inl e"
    from answerGenerationNode_failing[OF f, of ?x]
    show "\<not> noError final \<and> generatedAnswer final = Some generationApology"
      by (simp add: final selfEvaluationNode_noError selfEvaluationNode_keeps)
  qed
  define R where
    "R = \<lparr> wr_success = noError final,
           wr_answer = generatedAnswer final,
           wr_confidence = confidence final,
           wr_sources = sources final,
           wr_documents = Some (retrievedDocuments final),
           wr_metadata =
             Some \<lparr> wm_refinementAttempts = refinementAttempts final,
                    wm_evaluationScore = evaluationScore final,
                    wm_tokenUsage = tokenUsage final \<rparr>,
           wr_error = None \<rparr>"
  have r: "snd (executeRAGWorkflow svc w query uid urole m cid options) = Inr R"
    using None run by (simp add: executeRAGWorkflow_def invoke_def R_def)
  have R: "wr_success R = noError final" "wr_answer R = generatedAnswer final"
    by (simp_all add: R_def)
  have p1: "\<forall>e. svc_graphFault svc = Some e \<longrightarrow>
             wr_success R = False \<and> wr_answer R = Some workflowApology
             \<and> wr_error R = Some (message e)"
    using None by simp
  have p2: "svc_graphFault svc = None \<longrightarrow>
            (\<exists>ws'. runGraph svc (w, ?init) = cycle svc ws'
               \<and> (\<forall>e. generationCall svc (documentRetrievalNode svc (queryRefinementNode svc ws'))
                         = Inl e \<longrightarrow>
                       wr_success R = False \<and> wr_answer R = Some generationApology)
               \<and> (\<forall>res. generationCall svc (documentRetrievalNode svc (queryRefinementNode svc ws'))
                         = Inr res \<longrightarrow>
                       wr_answer R = Some (gen_answer res)
                       \<and> wr_success R
                           = noError (snd (documentRetrievalNode svc (queryRefinementNode svc ws')))))"
  proof (intro impI exI[of _ ws'] conjI allI)
    show "runGraph svc (w, ?init) = cycle svc ws'" by (rule c)
    show "wr_success R = False" if "generationCall svc ?x = Inl e" for e
      using failed that by (simp add: R)
    show "wr_answer R = Some generationApology" if "generationCall svc ?x = Inl e" for e
      using failed that by (simp add: R)
    show "wr_answer R = Some (gen_answer res)" if "generationCall svc ?x = Inr res" for res
      using succeeded that by (simp add: R)
    show "wr_success R = noError (snd ?x)" if "generationCall svc ?x = Inr res" for res
      using succeeded that by (simp add: R)
  qed
  have p3: "svc_graphFault svc = None \<and> (\<forall>q d x h. \<exists>e. svc_answerLLM svc q d x h = Inl e) \<longrightarrow>
             wr_success R = False \<and> wr_answer R = Some generationApology"
    using always by (simp add: R)
  from r p1 p2 p3 show ?thesis by (intro exI[of _ R] conjI)
next
  case (Some e)
  then show ?thesis by (simp add: executeRAGWorkflow_def invoke_def)
qed

lemma generationCall_broken:
  "generationCall brokenGenerationServices ws
     = Inl (Error ''Answer generation failed: 503 service unavailable'')"
  by (simp add: generationCall_def generateAnswer_def brokenGenerationServices_def
      plainServices_def failingAnswerLLM_def Let_def)

theorem executeRAGWorkflow_result_witness:
  "svc_graphFault faultyServices = Some (Error ''Recursion limit of 25 reached'')
   \<and> (\<exists>r. snd (executeRAGWorkflow faultyServices emptyWorld ''2+2=4, true or false?'' ''user-1''
                   Student ''math_solver'' ''conv-1'' None) = Inr r
          \<and> wr_success r = False \<and> wr_answer r = Some workflowApology
          \<and> wr_error r = Some ''Recursion limit of 25 reached'')
   \<and> svc_graphFault brokenGenerationServices = None
   \<and> (\<exists>r. snd (executeRAGWorkflow brokenGenerationServices emptyWorld ''2+2=4, true or false?''
                   ''user-1'' Student ''math_solver'' ''conv-1'' None) = Inr r
          \<and> wr_success r = False \<and> wr_answer r = Some generationApology)"
proof -
  have f: "svc_graphFault faultyServices = Some (Error ''Recursion limit of 25 reached'')"
    by (simp add: faultyServices_def)
  have b: "svc_graphFault brokenGenerationServices = None"
    by (simp add: brokenGenerationServices_def plainServices_def)
  from executeRAGWorkflow_result [of faultyServices emptyWorld "''2+2=4, true or false?''"
      "''user-1''" Student "''math_solver''" "''conv-1''" None] f
  have one: "\<exists>r. snd (executeRAGWorkflow faultyServices emptyWorld ''2+2=4, true or false?'' ''user-1''
                   Student ''math_solver'' ''conv-1'' None) = Inr r
          \<and> wr_success r = False \<and> wr_answer r = Some workflowApology
          \<and> wr_error r = Some ''Recursion limit of 25 reached''"
    by auto
  from executeRAGWorkflow_result [of brokenGenerationServices emptyWorld
      "''2+2=4, true or false?''" "''user-1''" Student "''math_solver''" "''conv-1''" None] b
    generationCall_broken
  have two: "\<exists>r. snd (executeRAGWorkflow brokenGenerationServices emptyWorld ''2+2=4, true or false?''
                   ''user-1'' Student ''math_solver'' ''conv-1'' None) = Inr r
          \<and> wr_success r = False \<and> wr_answer r = Some generationApology"
    by auto
  from f b one two show ?thesis by blast
qed

lemma embeddingDown_retrieval:
  "retrievedDocuments (snd (documentRetrievalNode embeddingDownServices ws)) = []"
  "error (snd (documentRetrievalNode embeddingDownServices ws))
     = Some ''embedding service unavailable''"
  by (cases ws; simp add: documentRetrievalNode_def retrieveDocuments_def Let_def
      embeddingDownServices_def plainServices_def failingEmbedding_def)+

lemma answerGenerationNode_ok_keeps_error:
  assumes "svc_answerLLM svc = okLLM"
  shows "error (snd (answerGenerationNode svc ws)) = error (snd ws)"
  using assms
  by (cases ws) (simp add: answerGenerationNode_def generateAnswer_def okLLM_def Let_def)

text \<open>
  The claim as worded fails on the code: when the embedding model is down, retrieval fails
  inside the workflow, the run continues without documents, and the record returned has
  \<^verbatim>\<open>success = false\<close> together with the answer of the language model, not an apology.
\<close>

theorem executeRAGWorkflow_counterexample:
  "\<exists>r. snd (executeRAGWorkflow embeddingDownServices emptyWorld ''2+2=4, true or false?''
             ''user-1'' Student ''math_solver'' ''conv-1'' None) = Inr r
      \<and> wr_success r = False
      \<and> wr_answer r = Some ''Four.''
      \<and> wr_answer r \<noteq> Some workflowApology
      \<and> wr_answer r \<noteq> Some generationApology"
proof -
  let ?svc = embeddingDownServices
  let ?ws = "(emptyWorld, exampleInitialState)"
  let ?x = "documentRetrievalNode ?svc (queryRefinementNode ?svc ?ws)"
  have llm: "svc_answerLLM ?svc = okLLM"
    by (simp add: embeddingDownServices_def plainServices_def)
  have docs: "retrievedDocuments (snd (cycle ?svc ?ws)) = []"
    by (simp add: cycle_def selfEvaluationNode_keeps answerGenerationNode_keeps_docs
        embeddingDown_retrieval)
  have ans: "generatedAnswer (snd (cycle ?svc ?ws)) = Some ''Four.''"
    by (simp add: cycle_def selfEvaluationNode_keeps answerGenerationNode_ok[OF llm])
  have err: "error (snd (cycle ?svc ?ws)) = Some ''embedding service unavailable''"
    by (simp add: cycle_def selfEvaluationNode_keeps answerGenerationNode_ok_keeps_error[OF llm]
        embeddingDown_retrieval)
  have "shouldRefine (snd (cycle ?svc ?ws)) = ''end''"
    by (rule cycle_exit) (simp add: docs ans answerMissing_def)
  then have run: "runGraph ?svc ?ws = cycle ?svc ?ws"
    by (subst runGraph_unfold) simp
  obtain w' final where wf: "cycle ?svc ?ws = (w', final)" by (cases "cycle ?svc ?ws")
  with ans err have fin: "generatedAnswer final = Some ''Four.''"
    "error final = Some ''embedding service unavailable''"
    by simp_all
  have init: "createInitialState (svc_now ?svc) ''2+2=4, true or false?'' ''user-1'' Student
                ''math_solver'' ''conv-1'' None = exampleInitialState"
    by (simp add: exampleInitialState_def embeddingDownServices_def plainServices_def)
  have gf: "svc_graphFault ?svc = None"
    by (simp add: embeddingDownServices_def plainServices_def)
  show ?thesis
    using run wf fin
    by (simp add: executeRAGWorkflow_def invoke_def gf init emptyWorld_def[symmetric] noError_def
        workflowApology_def generationApology_def)
qed


section \<open>Verification: chunker\<close>

text \<open>
  The loop invariant: the chunks emitted so far and the chunk under construction are within
  the bound or are seeds.
\<close>

lemma chunkStep_invariant:
  assumes "i < length sentences"
    and "chunkStep bound title sentences i (chunks, cur, idx) = (chunks', cur', idx')"
    and "\<forall>c\<in>set chunks. withinBoundOrSeed bound sentences (chunk_content c)"
    and "withinBoundOrSeed bound sentences cur"
  shows "(\<forall>c\<in>set chunks'. withinBoundOrSeed bound sentences (chunk_content c))
         \<and> withinBoundOrSeed bound sentences cur'"
proof (cases "length (cur @ '' '' @ trim (sentences ! i)) \<le> bound")
  case True
  with assms(2) have "chunks' = chunks"
    and "cur' = cur @ (if cur \<noteq> [] then '' '' else []) @ trim (sentences ! i)"
    by (simp_all add: chunkStep_def Let_def)
  moreover from True have
    "length (cur @ (if cur \<noteq> [] then '' '' else []) @ trim (sentences ! i)) \<le> bound"
    by simp
  ultimately show ?thesis using assms(3) by (simp add: withinBoundOrSeed_def)
next
  case False
  with assms(2) have c: "chunks' = (if cur \<noteq> [] then chunks @ [mkChunk cur title idx (i - 5) i] else chunks)"
    and s: "cur' = joinWith '' '' (drop (i - 2) (take i sentences)) @ '' '' @ trim (sentences ! i)"
    by (simp_all add: chunkStep_def Let_def split: if_splits)
  from s assms(1) have "withinBoundOrSeed bound sentences cur'"
    unfolding withinBoundOrSeed_def by blast
  moreover have "\<forall>c\<in>set chunks'. withinBoundOrSeed bound sentences (chunk_content c)"
    using c assms(3,4) by (auto simp: mkChunk_def)
  ultimately show ?thesis by simp
qed

lemma fold_chunkStep_invariant:
  "n \<le> length sentences \<Longrightarrow>
   fold (chunkStep bound title sentences) [0..<n] ([], [], 0) = (chunks, cur, idx) \<Longrightarrow>
   (\<forall>c\<in>set chunks. withinBoundOrSeed bound sentences (chunk_content c))
   \<and> withinBoundOrSeed bound sentences cur"
proof (induction n arbitrary: chunks cur idx)
  case 0
  then show ?case by (simp add: withinBoundOrSeed_def)
next
  case (Suc n)
  obtain chunks0 cur0 idx0 where
    f: "fold (chunkStep bound title sentences) [0..<n] ([], [], 0) = (chunks0, cur0, idx0)"
    by (cases "fold (chunkStep bound title sentences) [0..<n] ([], [], 0)")
  from Suc.prems(1) have n: "n \<le> length sentences" "n < length sentences" by simp_all
  from Suc.IH[OF n(1) f] have inv:
    "\<forall>c\<in>set chunks0. withinBoundOrSeed bound sentences (chunk_content c)"
    "withinBoundOrSeed bound sentences cur0"
    by simp_all
  from Suc.prems(2) f have
    "chunkStep bound title sentences n (chunks0, cur0, idx0) = (chunks, cur, idx)"
    by simp
  from chunkStep_invariant[OF n(2) this inv] show ?case .
qed

lemma chunkDocument_bound_or_seed:
  assumes "c \<in> set (chunkDocument text options)"
  shows "withinBoundOrSeed (chunkSize options)
           (case matchSentences text of [] \<Rightarrow> [text] | m # ms \<Rightarrow> m # ms) (chunk_content c)"
proof -
  let ?ss = "case matchSentences text of [] \<Rightarrow> [text] | m # ms \<Rightarrow> m # ms"
  obtain chunks cur idx where
    f: "fold (chunkStep (chunkSize options) (co_documentTitle options) ?ss) [0..<length ?ss] ([], [], 0)
          = (chunks, cur, idx)"
    by (cases "fold (chunkStep (chunkSize options) (co_documentTitle options) ?ss)
                 [0..<length ?ss] ([], [], 0)")
  from fold_chunkStep_invariant[OF order_refl f] have inv:
    "\<forall>c\<in>set chunks. withinBoundOrSeed (chunkSize options) ?ss (chunk_content c)"
    "withinBoundOrSeed (chunkSize options) ?ss cur"
    by simp_all
  from assms f have "c \<in> set chunks \<or> chunk_content c = cur"
    by (auto simp: chunkDocument_def Let_def mkChunk_def split: if_splits)
  with inv show ?thesis by auto
qed

lemma chunkDocument_ignores_overlap:
  "chunkDocument text (options\<lparr> chunkOverlap := k \<rparr>) = chunkDocument text options"
  by (simp add: chunkDocument_def Let_def split: prod.splits)

lemma matchSentences_three:
  "matchSentences threeSentences = [longSentence, '' '' @ longSentence, '' '' @ longSentence]"
  by code_simp

lemma chunk_contents_three:
  "map chunk_content (chunkDocument threeSentences defaultChunkOptions)
     = [longSentence @ '' '' @ longSentence,
        longSentence @ ''  '' @ longSentence @ '' '' @ longSentence]"
  by code_simp

lemma length_longSentence: "length longSentence = 400"
  by (simp add: longSentence_def)

lemma overlap_mismatch:
  "drop (length (longSentence @ '' '' @ longSentence) - 200) (longSentence @ '' '' @ longSentence)
     \<noteq> take 200 (longSentence @ ''  '' @ longSentence @ '' '' @ longSentence)"
  by code_simp

text \<open>
  Claim C5 says that no chunk exceeds the size bound unless it is a single oversized
  sentence, and that consecutive chunks share the configured overlap. The code at the
  options both callers use (size 1000, overlap 200) and a text of three sentences of 400
  characters: the second chunk is seeded with the two preceding sentences and the current
  one without a size check and has 1203 characters, although no sentence is longer than
  400; it repeats the whole first chunk rather than its last 200 characters; and the
  result is the same for any value of \<^verbatim>\<open>chunkOverlap\<close>.
\<close>

theorem chunkDocument_exceeds_bound:
  "chunkSize defaultChunkOptions = 1000 \<and> chunkOverlap defaultChunkOptions = 200
   \<and> map (length \<circ> trim) (matchSentences threeSentences) = [400, 400, 400]
   \<and> map chunk_content (chunkDocument threeSentences defaultChunkOptions)
       = [longSentence @ '' '' @ longSentence,
          longSentence @ ''  '' @ longSentence @ '' '' @ longSentence]
   \<and> map (length \<circ> chunk_content) (chunkDocument threeSentences defaultChunkOptions) = [801, 1203]
   \<and> drop (801 - chunkOverlap defaultChunkOptions) (longSentence @ '' '' @ longSentence)
       \<noteq> take (chunkOverlap defaultChunkOptions)
            (longSentence @ ''  '' @ longSentence @ '' '' @ longSentence)
   \<and> chunkDocument threeSentences (defaultChunkOptions\<lparr> chunkOverlap := 0 \<rparr>)
       = chunkDocument threeSentences defaultChunkOptions"
proof -
  have a: "map (length \<circ> trim) (matchSentences threeSentences) = [400, 400, 400]"
    by code_simp
  have b: "map (length \<circ> chunk_content) (chunkDocument threeSentences defaultChunkOptions)
             = [801, 1203]"
    using arg_cong[OF chunk_contents_three, of "map length"]
    by (simp add: length_longSentence)
  have c: "drop (801 - chunkOverlap defaultChunkOptions) (longSentence @ '' '' @ longSentence)
       \<noteq> take (chunkOverlap defaultChunkOptions)
            (longSentence @ ''  '' @ longSentence @ '' '' @ longSentence)"
    using overlap_mismatch by (simp add: defaultChunkOptions_def length_longSentence)
  have d: "chunkSize defaultChunkOptions = 1000 \<and> chunkOverlap defaultChunkOptions = 200"
    by (simp add: defaultChunkOptions_def)
  from a b c d chunk_contents_three chunkDocument_ignores_overlap show ?thesis by blast
qed


end
